theory Spec2Isabelle
  imports Main
begin

section \<open>Exceptions\<close>

text \<open>
  The exceptions the modelled code can raise: an index read outside a list, and a
  string method called on a value that is no string. A fallible function returns
  \<open>Inl\<close> of the exception or \<open>Inr\<close> of its result.
\<close>

datatype py_error = IndexError | AttributeError

definition bind_exc :: "py_error + 'a \<Rightarrow> ('a \<Rightarrow> py_error + 'b) \<Rightarrow> py_error + 'b" where
  "bind_exc m f = (case m of Inl e \<Rightarrow> Inl e | Inr x \<Rightarrow> f x)"

text \<open>\<^verbatim>\<open>xs[i]\<close> for \<open>i \<ge> 0\<close>.\<close>

definition index :: "'a list \<Rightarrow> nat \<Rightarrow> py_error + 'a" where
  "index xs i = (if i < length xs then Inr (xs ! i) else Inl IndexError)"

section \<open>Text\<close>

text \<open>
  A Python \<^verbatim>\<open>str\<close> is a sequence of Unicode code points, so a string is
  modelled as a list of code points: \<^verbatim>\<open>len\<close> is \<open>length\<close>, and one CJK
  character is one element.
\<close>

type_synonym pystr = "nat list"

text \<open>
  The regular expressions of \<^verbatim>\<open>_format_date\<close> use \<^verbatim>\<open>\d\<close> in a \<^verbatim>\<open>str\<close> pattern, which
  matches every Unicode decimal digit (category Nd), not only 0..9. The table belongs to
  the Python runtime, not to the repository: these are its 62 ranges (660 code points,
  Unicode 14.0, the table of Python 3.11), each given by its first and last code point.
\<close>

definition digit_ranges :: "(nat \<times> nat) list" where
  "digit_ranges =
     [(48, 57), (1632, 1641), (1776, 1785), (1984, 1993), (2406, 2415), (2534, 2543),
      (2662, 2671), (2790, 2799), (2918, 2927), (3046, 3055), (3174, 3183), (3302, 3311),
      (3430, 3439), (3558, 3567), (3664, 3673), (3792, 3801), (3872, 3881), (4160, 4169),
      (4240, 4249), (6112, 6121), (6160, 6169), (6470, 6479), (6608, 6617), (6784, 6793),
      (6800, 6809), (6992, 7001), (7088, 7097), (7232, 7241), (7248, 7257), (42528, 42537),
      (43216, 43225), (43264, 43273), (43472, 43481), (43504, 43513), (43600, 43609),
      (44016, 44025), (65296, 65305), (66720, 66729), (68912, 68921), (69734, 69743),
      (69872, 69881), (69942, 69951), (70096, 70105), (70384, 70393), (70736, 70745),
      (70864, 70873), (71248, 71257), (71360, 71369), (71472, 71481), (71904, 71913),
      (72016, 72025), (72784, 72793), (73040, 73049), (73120, 73129), (92768, 92777),
      (92864, 92873), (93008, 93017), (120782, 120831), (123200, 123209), (123632, 123641),
      (125264, 125273), (130032, 130041)]"

definition is_digit :: "nat \<Rightarrow> bool" where
  "is_digit c \<longleftrightarrow> list_ex (\<lambda>(lo, hi). lo \<le> c \<and> c \<le> hi) digit_ranges"

text \<open>
  \<^verbatim>\<open>str.strip()\<close> without an argument removes the characters for which
  \<^verbatim>\<open>str.isspace\<close> holds; the spec's "blank" is empty or whitespace-only text. The
  table belongs to the Python runtime: these are its 29 code points.
\<close>

definition is_space :: "nat \<Rightarrow> bool" where
  "is_space c \<longleftrightarrow>
     (9 \<le> c \<and> c \<le> 13) \<or> (28 \<le> c \<and> c \<le> 32) \<or> c = 133 \<or> c = 160 \<or> c = 5760 \<or>
     (8192 \<le> c \<and> c \<le> 8202) \<or> c = 8232 \<or> c = 8233 \<or> c = 8239 \<or> c = 8287 \<or> c = 12288"

definition strip :: "pystr \<Rightarrow> pystr" where
  "strip s = rev (dropWhile is_space (rev (dropWhile is_space s)))"

text \<open>\<^verbatim>\<open>str.split(sep)\<close> for a one-character separator.\<close>

fun split :: "nat \<Rightarrow> pystr \<Rightarrow> pystr list" where
  "split sep [] = [[]]"
| "split sep (x # xs) =
     (if x = sep then [] # split sep xs
      else (case split sep xs of [] \<Rightarrow> [[x]] | p # ps \<Rightarrow> (x # p) # ps))"

text \<open>\<^verbatim>\<open>str.zfill(width)\<close>: zeros go after a leading sign.\<close>

definition zfill :: "nat \<Rightarrow> pystr \<Rightarrow> pystr" where
  "zfill width s =
     (if width \<le> length s then s
      else (case s of
              c # cs \<Rightarrow> if c = 43 \<or> c = 45 then c # replicate (width - length s) 48 @ cs
                        else replicate (width - length s) 48 @ s
            | [] \<Rightarrow> replicate width 48))"

abbreviation hyphen :: nat where "hyphen \<equiv> 45"
abbreviation nian :: nat where "nian \<equiv> 24180"
abbreviation yue :: nat where "yue \<equiv> 26376"
abbreviation ri :: nat where "ri \<equiv> 26085"

section \<open>Date normalizer\<close>

text \<open>
  The six regular expressions of \<^verbatim>\<open>_format_date\<close>, each applied with
  \<^verbatim>\<open>re.match\<close> to the stripped text. A stripped text has no trailing newline, so
  \<^verbatim>\<open>$\<close> is the end of the text.
\<close>

text \<open>\<^verbatim>\<open>^\d{4}-\d{2}-\d{2}$\<close>\<close>

fun match_ymd :: "pystr \<Rightarrow> bool" where
  "match_ymd [a, b, c, d, p, e, f, q, g, h] =
     (is_digit a \<and> is_digit b \<and> is_digit c \<and> is_digit d \<and> p = hyphen \<and>
      is_digit e \<and> is_digit f \<and> q = hyphen \<and> is_digit g \<and> is_digit h)"
| "match_ymd _ = False"

text \<open>\<^verbatim>\<open>^\d{4}-\d{2}$\<close>\<close>

fun match_ym :: "pystr \<Rightarrow> bool" where
  "match_ym [a, b, c, d, p, e, f] =
     (is_digit a \<and> is_digit b \<and> is_digit c \<and> is_digit d \<and> p = hyphen \<and>
      is_digit e \<and> is_digit f)"
| "match_ym _ = False"

text \<open>\<^verbatim>\<open>^\d{4}-\d{1}$\<close>\<close>

fun match_y1m :: "pystr \<Rightarrow> bool" where
  "match_y1m [a, b, c, d, p, e] =
     (is_digit a \<and> is_digit b \<and> is_digit c \<and> is_digit d \<and> p = hyphen \<and> is_digit e)"
| "match_y1m _ = False"

text \<open>\<^verbatim>\<open>^\d{4}$\<close>\<close>

fun match_y :: "pystr \<Rightarrow> bool" where
  "match_y [a, b, c, d] = (is_digit a \<and> is_digit b \<and> is_digit c \<and> is_digit d)"
| "match_y _ = False"

text \<open>
  \<^verbatim>\<open>\d{1,2}\<close> before a literal that is no digit: the greedy group takes the whole
  run of digits, and the match fails unless the run has one or two of them.
\<close>

definition digits12 :: "pystr \<Rightarrow> (pystr \<times> pystr) option" where
  "digits12 s =
     (let m = takeWhile is_digit s
      in if 1 \<le> length m \<and> length m \<le> 2 then Some (m, dropWhile is_digit s) else None)"

text \<open>\<^verbatim>\<open>^(\d{4})\<close> followed by the year sign; returns the group and the rest.\<close>

fun year_nian :: "pystr \<Rightarrow> (pystr \<times> pystr) option" where
  "year_nian (a # b # c # d # n # rest) =
     (if is_digit a \<and> is_digit b \<and> is_digit c \<and> is_digit d \<and> n = nian
      then Some ([a, b, c, d], rest) else None)"
| "year_nian _ = None"

text \<open>The localized pattern with a day; the day sign is optional. Returns \<^verbatim>\<open>match.groups()\<close>.\<close>

definition match_cn_ymd :: "pystr \<Rightarrow> (pystr \<times> pystr \<times> pystr) option" where
  "match_cn_ymd s =
     (case year_nian s of
        None \<Rightarrow> None
      | Some (year, r1) \<Rightarrow>
          (case digits12 r1 of
             None \<Rightarrow> None
           | Some (month, r2) \<Rightarrow>
               (case r2 of
                  [] \<Rightarrow> None
                | y # r3 \<Rightarrow>
                    if y \<noteq> yue then None
                    else (case digits12 r3 of
                            None \<Rightarrow> None
                          | Some (day, r4) \<Rightarrow>
                              if r4 = [] \<or> r4 = [ri] then Some (year, month, day) else None))))"

text \<open>The localized pattern without a day.\<close>

definition match_cn_ym :: "pystr \<Rightarrow> (pystr \<times> pystr) option" where
  "match_cn_ym s =
     (case year_nian s of
        None \<Rightarrow> None
      | Some (year, r1) \<Rightarrow>
          (case digits12 r1 of
             None \<Rightarrow> None
           | Some (month, r2) \<Rightarrow> if r2 = [yue] then Some (year, month) else None))"

text \<open>
  \<^verbatim>\<open>_format_date(date_str: Optional[str]) -> Optional[str]\<close>. \<open>None\<close> is Python's
  \<^verbatim>\<open>None\<close>. The branches are those of the source, in its order; the two index
  reads \<^verbatim>\<open>parts[0]\<close> and \<^verbatim>\<open>parts[1]\<close> are the only operations that can raise.
\<close>

definition format_date :: "pystr option \<Rightarrow> py_error + pystr option" where
  "format_date date_str =
     (case date_str of
        None \<Rightarrow> Inr None
      | Some s0 \<Rightarrow>
          if s0 = [] \<or> strip s0 = [] then Inr None
          else
            let s = strip s0 in
            if match_ymd s then Inr (Some s)
            else if match_ym s then Inr (Some (s @ [hyphen, 48, 49]))
            else if match_y1m s then
              (let parts = split hyphen s
               in bind_exc (index parts 0) (\<lambda>p0.
                  bind_exc (index parts 1) (\<lambda>p1.
                  Inr (Some (p0 @ [hyphen, 48] @ p1 @ [hyphen, 48, 49])))))
            else if match_y s then Inr (Some (s @ [hyphen, 48, 49, hyphen, 48, 49]))
            else
              (case match_cn_ymd s of
                 Some (year, month, day) \<Rightarrow>
                   Inr (Some (year @ [hyphen] @ zfill 2 month @ [hyphen] @ zfill 2 day))
               | None \<Rightarrow>
                   (case match_cn_ym s of
                      Some (year, month) \<Rightarrow>
                        Inr (Some (year @ [hyphen] @ zfill 2 month @ [hyphen, 48, 49]))
                    | None \<Rightarrow> Inr (Some s))))"

text \<open>The texts the normalizer recognizes: one of the six patterns matches.\<close>

definition recognized :: "pystr \<Rightarrow> bool" where
  "recognized s \<longleftrightarrow>
     match_ymd s \<or> match_ym s \<or> match_y1m s \<or> match_y s \<or>
     match_cn_ymd s \<noteq> None \<or> match_cn_ym s \<noteq> None"

text \<open>Blank text: empty or whitespace only.\<close>

definition blank :: "pystr \<Rightarrow> bool" where
  "blank s \<longleftrightarrow> list_all is_space s"

section \<open>Values of the parsed record\<close>

text \<open>
  The values the parsed JSON record holds in its fields (spec, data model): absent
  (\<^verbatim>\<open>null\<close>, or a missing key read with \<^verbatim>\<open>dict.get\<close>), a text, a boolean, or a
  list of texts.
\<close>

datatype pyval = PNone | PStr pystr | PBool bool | PList "pystr list"

text \<open>Python truthiness of a value (\<^verbatim>\<open>if value\<close>).\<close>

fun truthy :: "pyval \<Rightarrow> bool" where
  "truthy PNone = False"
| "truthy (PStr s) = (s \<noteq> [])"
| "truthy (PBool b) = b"
| "truthy (PList xs) = (xs \<noteq> [])"

fun of_opt :: "pystr option \<Rightarrow> pyval" where
  "of_opt None = PNone"
| "of_opt (Some s) = PStr s"

text \<open>Truthiness of an optional text: \<^verbatim>\<open>None\<close> and the empty text are false.\<close>

fun truthy_opt :: "pystr option \<Rightarrow> bool" where
  "truthy_opt None = False"
| "truthy_opt (Some s) = (s \<noteq> [])"

text \<open>\<^verbatim>\<open>sep.join(xs)\<close>\<close>

fun join :: "pystr \<Rightarrow> pystr list \<Rightarrow> pystr" where
  "join sep [] = []"
| "join sep [x] = x"
| "join sep (x # y # ys) = x @ sep @ join sep (y # ys)"

text \<open>\<^verbatim>\<open>sub in s\<close> for texts: \<open>sub\<close> occurs in \<open>s\<close> as a contiguous run.\<close>

fun contains :: "pystr \<Rightarrow> pystr \<Rightarrow> bool" where
  "contains sub [] = (sub = [])"
| "contains sub (x # xs) = (take (length sub) (x # xs) = sub \<or> contains sub xs)"

text \<open>The text constants of the generator, as code points.\<close>

definition placeholder :: pystr where
  "placeholder = [12304, 24453, 34917, 20805, 12305]"

definition yes_token :: pystr where
  "yes_token = [26159]"

definition no_token :: pystr where
  "no_token = [21542]"

definition list_sep :: pystr where
  "list_sep = [12289]"

definition benke :: pystr where
  "benke = [26412, 31185]"

definition shuoshi :: pystr where
  "shuoshi = [30805, 22763]"

definition boshi :: pystr where
  "boshi = [21338, 22763]"

definition boshi_xueli :: pystr where
  "boshi_xueli = [21338, 22763, 23398, 21382]"

definition work_header_labels :: "pystr list" where
  "work_header_labels =
     [[24037, 20316, 24320, 22987, 26085, 26399, 65288, 24180, 26376, 26085, 65289],
      [24037, 20316, 32467, 26463, 26085, 26399, 65288, 24180, 26376, 26085, 65289],
      [21333, 20301, 21517, 31216],
      [23703, 20301, 47, 32844, 21153],
      [26159, 21542, 37038, 20648, 38134, 34892, 33258, 20027, 30740, 21457, 24037, 20316,
       32463, 39564]]"

definition label_enrollment :: pystr where
  "label_enrollment = [20837, 23398, 26102, 38388]"

definition label_university :: pystr where
  "label_university = [27605, 19994, 38498, 26657]"

definition label_graduation :: pystr where
  "label_graduation = [27605, 19994, 26102, 38388]"

definition label_major :: pystr where
  "label_major = [19987, 19994]"

definition label_diploma_number :: pystr where
  "label_diploma_number = [27605, 19994, 35777, 32534, 21495]"

definition label_diploma_code :: pystr where
  "label_diploma_code = [27605, 19994, 35777, 23398, 20449, 32593, 22312, 32447, 39564, 35777, 30721]"

definition label_degree_number :: pystr where
  "label_degree_number = [23398, 20301, 35777, 32534, 21495]"

definition label_degree_code :: pystr where
  "label_degree_code = [23398, 20301, 35777, 23398, 20449, 32593, 22312, 32447, 39564, 35777, 30721]"

section \<open>The parsed record\<close>

record basic_info =
  name :: "pystr option"
  supplier :: "pystr option"

record personal_info =
  id_card_number :: "pystr option"
  birth_date :: "pystr option"
  phone :: "pystr option"
  first_work_date :: "pystr option"
  first_it_work_date :: "pystr option"
  highest_education :: "pystr option"
  contract_level :: "pystr option"

text \<open>
  An education entry. \<open>degree_type\<close> is \<^verbatim>\<open>edu.get("degree_type", "")\<close>: the empty
  text when the key is missing.
\<close>

record education_entry =
  degree_type :: pystr
  enrollment_date :: "pystr option"
  university :: "pystr option"
  graduation_date :: "pystr option"
  major :: "pystr option"
  diploma_number :: "pystr option"
  diploma_verification_code :: "pystr option"
  degree_number :: "pystr option"
  degree_verification_code :: "pystr option"

record work_entry =
  start_date :: "pystr option"
  end_date :: "pystr option"
  company :: "pystr option"
  position :: "pystr option"
  is_psbc_independent_dev :: "bool option"

record project_entry =
  p_start_date :: "pystr option"
  p_end_date :: "pystr option"
  project_name :: "pystr option"
  description :: "pystr option"
  role :: "pystr option"
  p_is_psbc_independent_dev :: "bool option"

record technical_skills =
  programming_languages :: "pystr list option"
  skills :: "pystr list option"
  certifications :: "pystr list option"

text \<open>
  The parsed record. \<open>error\<close> is the value under the top-level key \<^verbatim>\<open>"error"\<close>, when
  the key is present. A missing section reads as the empty dictionary or the empty
  list (\<^verbatim>\<open>data.get(key, default)\<close>).
\<close>

record resume_data =
  error :: "pystr option"
  basic :: basic_info
  personal :: personal_info
  education :: "education_entry list"
  work_experience :: "work_entry list"
  project_experience :: "project_entry list"
  technical :: technical_skills

text \<open>The empty dictionary \<^verbatim>\<open>{}\<close> read as an education entry: every \<^verbatim>\<open>get\<close> is \<^verbatim>\<open>None\<close>.\<close>

definition empty_edu :: education_entry where
  "empty_edu =
     \<lparr>degree_type = [], enrollment_date = None, university = None, graduation_date = None,
      major = None, diploma_number = None, diploma_verification_code = None,
      degree_number = None, degree_verification_code = None\<rparr>"

section \<open>Grid model\<close>

text \<open>
  Modelled from the spec: the worksheet type and its operations \<^verbatim>\<open>cell\<close>,
  \<^verbatim>\<open>insert_rows\<close>, \<^verbatim>\<open>merge_cells\<close>, \<^verbatim>\<open>unmerge_cells\<close> and \<^verbatim>\<open>has_style\<close> belong to
  the spreadsheet library, not to the repository. The spec's Grid Model: a grid of
  cells, each with a value and a style, a set of merged rectangular ranges;
  \<^verbatim>\<open>insertRows(at, count)\<close> shifts every cell at a row \<open>\<ge> at\<close> down by \<open>count\<close> and
  shifts every merge rectangle whose first row is \<open>\<ge> at\<close> down by \<open>count\<close>.
\<close>

datatype pfill = DefaultFill | HIGHLIGHT_FILL | TemplateFill nat

datatype pfont = DefaultFont | HIGHLIGHT_FONT | TemplateFont nat

text \<open>The six style attributes that \<^verbatim>\<open>_copy_row_style\<close> copies; 0 is the default.\<close>

record style =
  font :: pfont
  border :: nat
  fill :: pfill
  number_format :: nat
  protection :: nat
  alignment :: nat

definition default_style :: style where
  "default_style =
     \<lparr>font = DefaultFont, border = 0, fill = DefaultFill, number_format = 0,
      protection = 0, alignment = 0\<rparr>"

record cell =
  cvalue :: "pystr option"
  cstyle :: style

definition empty_cell :: cell where
  "empty_cell = \<lparr>cvalue = None, cstyle = default_style\<rparr>"

definition has_style :: "cell \<Rightarrow> bool" where
  "has_style c \<longleftrightarrow> cstyle c \<noteq> default_style"

record rect =
  min_row :: nat
  min_col :: nat
  max_row :: nat
  max_col :: nat

text \<open>
  The state of a \<^verbatim>\<open>ResumeTemplateGenerator\<close>: the active worksheet (cells by row
  and column, from 1, and the merged ranges) and the offset counter.
\<close>

record generator =
  cells :: "nat \<times> nat \<Rightarrow> cell"
  merged_cells :: "rect list"
  row_offset :: nat

definition set_value :: "generator \<Rightarrow> nat \<Rightarrow> nat \<Rightarrow> pystr option \<Rightarrow> generator" where
  "set_value g r c v = g\<lparr>cells := (cells g)((r, c) := (cells g (r, c))\<lparr>cvalue := v\<rparr>)\<rparr>"

definition set_style :: "generator \<Rightarrow> nat \<Rightarrow> nat \<Rightarrow> style \<Rightarrow> generator" where
  "set_style g r c s = g\<lparr>cells := (cells g)((r, c) := (cells g (r, c))\<lparr>cstyle := s\<rparr>)\<rparr>"

text \<open>\<^verbatim>\<open>cell.fill = HIGHLIGHT_FILL; cell.font = HIGHLIGHT_FONT\<close>\<close>

definition highlight :: "generator \<Rightarrow> nat \<Rightarrow> nat \<Rightarrow> generator" where
  "highlight g r c =
     set_style g r c ((cstyle (cells g (r, c)))\<lparr>fill := HIGHLIGHT_FILL, font := HIGHLIGHT_FONT\<rparr>)"

definition shift_rect :: "nat \<Rightarrow> nat \<Rightarrow> rect \<Rightarrow> rect" where
  "shift_rect idx amount r =
     (if idx \<le> min_row r then r\<lparr>min_row := min_row r + amount, max_row := max_row r + amount\<rparr>
      else r)"

definition insert_rows :: "generator \<Rightarrow> nat \<Rightarrow> nat \<Rightarrow> generator" where
  "insert_rows g idx amount =
     g\<lparr>cells := (\<lambda>(r, c). if r < idx then cells g (r, c)
                          else if r < idx + amount then empty_cell
                          else cells g (r - amount, c)),
       merged_cells := map (shift_rect idx amount) (merged_cells g)\<rparr>"

definition merge_cells :: "generator \<Rightarrow> rect \<Rightarrow> generator" where
  "merge_cells g r =
     (if r \<in> set (merged_cells g) then g else g\<lparr>merged_cells := merged_cells g @ [r]\<rparr>)"

text \<open>
  The unmerge loops of the source: every range of \<open>rs\<close> is unmerged inside
  \<^verbatim>\<open>try ... except: pass\<close>, so the ranges are removed and nothing is raised.
\<close>

definition unmerge_all :: "generator \<Rightarrow> rect list \<Rightarrow> generator" where
  "unmerge_all g rs = g\<lparr>merged_cells := filter (\<lambda>r. r \<notin> set rs) (merged_cells g)\<rparr>"

section \<open>The template generator\<close>

definition get_actual_row :: "generator \<Rightarrow> nat \<Rightarrow> nat" where
  "get_actual_row g base_row = base_row + row_offset g"

text \<open>
  \<^verbatim>\<open>_fill_cell(row, col, value, apply_offset=True, is_date=False)\<close>. A date field
  whose value is truthy goes through \<^verbatim>\<open>_format_date\<close>, which calls \<^verbatim>\<open>strip\<close> on
  it: a boolean or a list there raises \<^verbatim>\<open>AttributeError\<close>.
\<close>

definition fill_cell ::
  "generator \<Rightarrow> nat \<Rightarrow> nat \<Rightarrow> pyval \<Rightarrow> bool \<Rightarrow> bool \<Rightarrow> py_error + generator" where
  "fill_cell g row col val apply_offset is_date =
     (let actual_row = (if apply_offset then get_actual_row g row else row) in
      bind_exc
        (if is_date \<and> truthy val then
           (case val of
              PStr s \<Rightarrow> bind_exc (format_date (Some s)) (\<lambda>d. Inr (of_opt d))
            | _ \<Rightarrow> Inl AttributeError)
         else Inr val)
        (\<lambda>v.
           if v = PNone \<or> v = PStr [] \<or> v = PList [] then
             Inr (highlight (set_value g actual_row col (Some placeholder)) actual_row col)
           else
             (case v of
                PList xs \<Rightarrow>
                  (let g1 = set_value g actual_row col
                              (Some (if xs \<noteq> [] then join list_sep xs else placeholder))
                   in Inr (if xs = [] then highlight g1 actual_row col else g1))
              | PBool b \<Rightarrow> Inr (set_value g actual_row col (Some (if b then yes_token else no_token)))
              | PStr s \<Rightarrow> Inr (set_value g actual_row col (Some s))
              | PNone \<Rightarrow> Inr (highlight (set_value g actual_row col (Some placeholder)) actual_row col))))"

text \<open>
  A run of \<^verbatim>\<open>self._fill_cell(row, col, value, is_date=...)\<close> statements, in order;
  the first exception ends the run.
\<close>

fun fill_cells :: "generator \<Rightarrow> (nat \<times> nat \<times> pyval \<times> bool) list \<Rightarrow> py_error + generator" where
  "fill_cells g [] = Inr g"
| "fill_cells g ((row, col, val, is_date) # rest) =
     bind_exc (fill_cell g row col val True is_date) (\<lambda>g'. fill_cells g' rest)"

text \<open>A run of \<^verbatim>\<open>self.ws.cell(row=r, column=c).value = v\<close> statements.\<close>

fun set_values :: "generator \<Rightarrow> (nat \<times> nat \<times> pystr) list \<Rightarrow> generator" where
  "set_values g [] = g"
| "set_values g ((r, c, v) # rest) = set_values (set_value g r c (Some v)) rest"

text \<open>The body of the loop of \<^verbatim>\<open>_copy_row_style\<close> for one column.\<close>

definition copy_cell_style :: "generator \<Rightarrow> nat \<Rightarrow> nat \<Rightarrow> nat \<Rightarrow> generator" where
  "copy_cell_style g source_row target_row col =
     (let source_cell = cells g (source_row, col); target_cell = cells g (target_row, col) in
      if has_style source_cell then
        set_style g target_row col
          ((cstyle target_cell)\<lparr>font := font (cstyle source_cell),
             border := border (cstyle source_cell),
             fill := fill (cstyle source_cell),
             number_format := number_format (cstyle source_cell),
             protection := protection (cstyle source_cell),
             alignment := alignment (cstyle source_cell)\<rparr>)
      else g)"

definition copy_row_style :: "generator \<Rightarrow> nat \<Rightarrow> nat \<Rightarrow> nat \<Rightarrow> generator" where
  "copy_row_style g source_row target_row num_cols =
     foldl (\<lambda>g' col. copy_cell_style g' source_row target_row col) g [1..<num_cols + 1]"



definition fill_undergraduate :: "generator \<Rightarrow> education_entry \<Rightarrow> py_error + generator" where
  "fill_undergraduate g edu =
     fill_cells g
       [(14, 2, of_opt (enrollment_date edu), True),
        (14, 4, of_opt (university edu), False),
        (15, 2, of_opt (graduation_date edu), True),
        (15, 4, of_opt (major edu), False),
        (16, 2, of_opt (diploma_number edu), False),
        (17, 2, of_opt (diploma_verification_code edu), False),
        (19, 2, of_opt (degree_number edu), False),
        (20, 2, of_opt (degree_verification_code edu), False)]"

definition fill_graduate :: "generator \<Rightarrow> education_entry \<Rightarrow> pystr \<Rightarrow> py_error + generator" where
  "fill_graduate g edu degree_label =
     (let base_row = 22;
          g1 = (if degree_label = boshi
                then set_value g (get_actual_row g base_row) 1 (Some boshi_xueli) else g)
      in fill_cells g1
           [(base_row + 1, 2, of_opt (enrollment_date edu), True),
            (base_row + 1, 4, of_opt (university edu), False),
            (base_row + 2, 2, of_opt (graduation_date edu), True),
            (base_row + 2, 4, of_opt (major edu), False),
            (base_row + 3, 2, of_opt (diploma_number edu), False),
            (base_row + 4, 2, of_opt (diploma_verification_code edu), False),
            (base_row + 6, 2, of_opt (degree_number edu), False),
            (base_row + 7, 2, of_opt (degree_verification_code edu), False)])"

text \<open>The loop over \<^verbatim>\<open>cells_data\<close> at the end of \<^verbatim>\<open>_insert_doctoral_section\<close>.\<close>

fun fill_cells_data :: "generator \<Rightarrow> (nat \<times> nat \<times> pystr option) list \<Rightarrow> generator" where
  "fill_cells_data g [] = g"
| "fill_cells_data g ((row, col, val) # rest) =
     fill_cells_data
       (if val = None \<or> val = Some []
        then highlight (set_value g row col (Some placeholder)) row col
        else set_value g row col val)
       rest"

definition insert_doctoral_section :: "generator \<Rightarrow> education_entry \<Rightarrow> py_error + generator" where
  "insert_doctoral_section g edu =
     (let insert_row = get_actual_row g 31;
          num_rows = 9;
          work_exp_new_start = insert_row + num_rows;
          work_exp_header_row = work_exp_new_start + 1;
          g1 = insert_rows g insert_row num_rows;
          g2 = g1\<lparr>row_offset := row_offset g1 + num_rows\<rparr>;
          merged_to_fix =
            filter (\<lambda>mr. min_row mr = work_exp_header_row \<and> min_col mr = 1 \<and> 3 \<le> max_col mr)
              (merged_cells g2);
          g3 = unmerge_all g2 merged_to_fix;
          g4 = merge_cells g3
                 \<lparr>min_row = work_exp_header_row, min_col = 5,
                  max_row = work_exp_header_row, max_col = 6\<rparr>;
          g5 = set_values g4
                 [(work_exp_header_row, 1, work_header_labels ! 0),
                  (work_exp_header_row, 2, work_header_labels ! 1),
                  (work_exp_header_row, 3, work_header_labels ! 2),
                  (work_exp_header_row, 4, work_header_labels ! 3),
                  (work_exp_header_row, 5, work_header_labels ! 4)];
          source_base = 22;
          g6 = foldl (\<lambda>g' i. copy_row_style g' (source_base + i) (insert_row + i) 15) g5
                 [0..<num_rows];
          g7 = merge_cells g6
                 \<lparr>min_row = insert_row, min_col = 1, max_row = insert_row, max_col = 6\<rparr>;
          g8 = set_values g7
                 [(insert_row, 1, boshi_xueli),
                  (insert_row + 1, 1, label_enrollment),
                  (insert_row + 1, 3, label_university),
                  (insert_row + 2, 1, label_graduation),
                  (insert_row + 2, 3, label_major),
                  (insert_row + 3, 1, label_diploma_number),
                  (insert_row + 4, 1, label_diploma_code),
                  (insert_row + 6, 1, label_degree_number),
                  (insert_row + 7, 1, label_degree_code)]
      in bind_exc (format_date (enrollment_date edu)) (\<lambda>enrollment.
         bind_exc (format_date (graduation_date edu)) (\<lambda>graduation.
         Inr (fill_cells_data g8
                [(insert_row + 1, 2, enrollment),
                 (insert_row + 1, 4, university edu),
                 (insert_row + 2, 2, graduation),
                 (insert_row + 2, 4, major edu),
                 (insert_row + 3, 2, diploma_number edu),
                 (insert_row + 4, 2, diploma_verification_code edu),
                 (insert_row + 6, 2, degree_number edu),
                 (insert_row + 7, 2, degree_verification_code edu)]))))"

text \<open>
  The classification loop of \<^verbatim>\<open>fill_education\<close>: the state is the three variables
  \<^verbatim>\<open>undergraduate\<close>, \<^verbatim>\<open>master\<close>, \<^verbatim>\<open>doctoral\<close>.
\<close>

fun classify ::
  "education_entry option \<times> education_entry option \<times> education_entry option \<Rightarrow>
   education_entry list \<Rightarrow>
   education_entry option \<times> education_entry option \<times> education_entry option" where
  "classify (undergraduate, master, doctoral) [] = (undergraduate, master, doctoral)"
| "classify (undergraduate, master, doctoral) (edu # rest) =
     (if contains benke (degree_type edu) then classify (Some edu, master, doctoral) rest
      else if contains shuoshi (degree_type edu) then classify (undergraduate, Some edu, doctoral) rest
      else if contains boshi (degree_type edu) then classify (undergraduate, master, Some edu) rest
      else classify (undergraduate, master, doctoral) rest)"

text \<open>
  \<^verbatim>\<open>fill_education\<close>. An entry that the loop has stored has the key
  \<^verbatim>\<open>degree_type\<close>, so the dictionary is not empty and \<^verbatim>\<open>if undergraduate\<close>,
  \<^verbatim>\<open>if master\<close>, \<^verbatim>\<open>doctoral and master\<close> test for \<open>Some\<close>.
\<close>

definition fill_education :: "generator \<Rightarrow> resume_data \<Rightarrow> py_error + generator" where
  "fill_education g data =
     (case classify (None, None, None) (education data) of
        (undergraduate, master, doctoral) \<Rightarrow>
          bind_exc
            (case undergraduate of
               Some u \<Rightarrow> fill_undergraduate g u
             | None \<Rightarrow> fill_undergraduate g empty_edu)
            (\<lambda>g1.
               bind_exc
                 (case master of
                    Some m \<Rightarrow> bind_exc (fill_graduate g1 m shuoshi) (\<lambda>g2. Inr (g2, doctoral))
                  | None \<Rightarrow>
                      (case doctoral of
                         Some d \<Rightarrow> bind_exc (fill_graduate g1 d boshi) (\<lambda>g2. Inr (g2, None))
                       | None \<Rightarrow> Inr (g1, doctoral)))
                 (\<lambda>(g2, doctoral').
                    (case (doctoral', master) of
                       (Some d, Some m) \<Rightarrow> insert_doctoral_section g2 d
                     | _ \<Rightarrow> Inr g2))))"

text \<open>\<^verbatim>\<open>x if x else "..."\<close> with the placeholder token.\<close>

definition or_placeholder :: "pystr option \<Rightarrow> pystr" where
  "or_placeholder x = (case x of Some s \<Rightarrow> if s \<noteq> [] then s else placeholder | None \<Rightarrow> placeholder)"

definition bool_token :: "bool option \<Rightarrow> pystr" where
  "bool_token b =
     (case b of None \<Rightarrow> placeholder | Some v \<Rightarrow> if v then yes_token else no_token)"

text \<open>The highlight loops of the row writers: \<^verbatim>\<open>if cell.value == "..."\<close>.\<close>

definition highlight_if_placeholder :: "generator \<Rightarrow> nat \<Rightarrow> nat \<Rightarrow> generator" where
  "highlight_if_placeholder g row col =
     (if cvalue (cells g (row, col)) = Some placeholder then highlight g row col else g)"

text \<open>The body of the data loop of \<^verbatim>\<open>fill_work_experience\<close> for one entry.\<close>

definition fill_work_row :: "generator \<Rightarrow> nat \<Rightarrow> work_entry \<Rightarrow> py_error + generator" where
  "fill_work_row g row exp =
     bind_exc (format_date (start_date exp)) (\<lambda>start_d.
     bind_exc (format_date (end_date exp)) (\<lambda>end_d.
       (let g1 = set_values g
                   [(row, 1, or_placeholder start_d),
                    (row, 2, or_placeholder end_d),
                    (row, 3, or_placeholder (company exp)),
                    (row, 4, or_placeholder (position exp)),
                    (row, 5, bool_token (is_psbc_independent_dev exp))]
        in Inr (foldl (\<lambda>g' col. highlight_if_placeholder g' row col) g1 [1..<6]))))"

fun fill_work_rows :: "generator \<Rightarrow> nat \<Rightarrow> work_entry list \<Rightarrow> py_error + generator" where
  "fill_work_rows g row [] = Inr g"
| "fill_work_rows g row (exp # rest) =
     bind_exc (fill_work_row g row exp) (\<lambda>g'. fill_work_rows g' (row + 1) rest)"

text \<open>\<^verbatim>\<open>self.ws.cell(row=row, column=col).value = None\<close> for the columns 1 to 5.\<close>

definition clear_row :: "generator \<Rightarrow> nat \<Rightarrow> generator" where
  "clear_row g row = foldl (\<lambda>g' col. set_value g' row col None) g [1..<6]"

text \<open>
  \<^verbatim>\<open>fill_work_experience\<close>. \<open>num_items - template_rows\<close> on natural numbers is
  \<^verbatim>\<open>max(0, num_items - template_rows)\<close>.
\<close>

definition fill_work_experience :: "generator \<Rightarrow> resume_data \<Rightarrow> py_error + generator" where
  "fill_work_experience g data =
     (let work_exp = work_experience data in
      if work_exp = [] then Inr g
      else
        let data_start_row = get_actual_row g 33;
            num_items = length work_exp;
            template_rows = 2;
            extra_rows = num_items - template_rows;
            g1 = (if 0 < extra_rows then
                    (let insert_position = data_start_row + template_rows;
                         ga = insert_rows g insert_position extra_rows;
                         gb = foldl (\<lambda>g' i. copy_row_style g' data_start_row (insert_position + i) 15)
                                ga [0..<extra_rows]
                     in gb\<lparr>row_offset := row_offset gb + extra_rows\<rparr>)
                  else g);
            merged_ranges_to_remove =
              filter (\<lambda>mr. data_start_row \<le> min_row mr \<and> min_row mr < data_start_row + num_items \<and>
                            2 \<le> min_col mr \<and> 3 \<le> max_col mr)
                (merged_cells g1);
            g2 = unmerge_all g1 merged_ranges_to_remove
        in bind_exc (fill_work_rows g2 data_start_row work_exp) (\<lambda>g3.
             Inr (if num_items < template_rows
                  then foldl (\<lambda>g' i. clear_row g' (data_start_row + i)) g3 [num_items..<template_rows]
                  else g3)))"

text \<open>The body of the data loop of \<^verbatim>\<open>fill_project_experience\<close> for one entry.\<close>

definition fill_project_row :: "generator \<Rightarrow> nat \<Rightarrow> project_entry \<Rightarrow> py_error + generator" where
  "fill_project_row g row exp =
     bind_exc (format_date (p_start_date exp)) (\<lambda>start_d.
     bind_exc (format_date (p_end_date exp)) (\<lambda>end_d.
       (let g1 = set_values g
                   [(row, 1, or_placeholder start_d),
                    (row, 2, or_placeholder end_d),
                    (row, 3, or_placeholder (project_name exp)),
                    (row, 4, or_placeholder (description exp)),
                    (row, 5, or_placeholder (role exp)),
                    (row, 6, bool_token (p_is_psbc_independent_dev exp))]
        in Inr (foldl (\<lambda>g' col. highlight_if_placeholder g' row col) g1 [1..<7]))))"

fun fill_project_rows :: "generator \<Rightarrow> nat \<Rightarrow> project_entry list \<Rightarrow> py_error + generator" where
  "fill_project_rows g row [] = Inr g"
| "fill_project_rows g row (exp # rest) =
     bind_exc (fill_project_row g row exp) (\<lambda>g'. fill_project_rows g' (row + 1) rest)"

definition fill_project_experience :: "generator \<Rightarrow> resume_data \<Rightarrow> py_error + generator" where
  "fill_project_experience g data =
     (let project_exp = project_experience data in
      if project_exp = [] then Inr g
      else
        let data_start_row = get_actual_row g 38;
            num_items = length project_exp;
            template_rows = 2;
            extra_rows = num_items - template_rows;
            g1 = (if 0 < extra_rows then
                    (let insert_position = data_start_row + template_rows;
                         merged_ranges_to_remove =
                           filter (\<lambda>mr. insert_position \<le> min_row mr) (merged_cells g);
                         ga = unmerge_all g merged_ranges_to_remove;
                         gb = insert_rows ga insert_position extra_rows;
                         gc = foldl (\<lambda>g' i. copy_row_style g' data_start_row (insert_position + i) 15)
                                gb [0..<extra_rows]
                     in gc\<lparr>row_offset := row_offset gc + extra_rows\<rparr>)
                  else g)
        in fill_project_rows g1 data_start_row project_exp)"



section \<open>The command-line drivers\<close>









section \<open>Notions used in the statements\<close>

text \<open>
  The result of the date normalizer as a value: \<^verbatim>\<open>_format_date\<close> raises for no
  input, so this is what it returns.
\<close>

definition normalized :: "pystr option \<Rightarrow> pystr option" where
  "normalized x = (case format_date x of Inr r \<Rightarrow> r | Inl e \<Rightarrow> None)"

text \<open>The style of a cell after \<^verbatim>\<open>cell.fill = HIGHLIGHT_FILL; cell.font = HIGHLIGHT_FONT\<close>.\<close>

definition highlighted :: "style \<Rightarrow> style" where
  "highlighted s = s\<lparr>fill := HIGHLIGHT_FILL, font := HIGHLIGHT_FONT\<rparr>"

text \<open>
  A cell after a row writer has stored the text \<open>v\<close> in it and run its highlight
  loop: the highlight is applied when the stored text is the placeholder token.
\<close>

definition written :: "cell \<Rightarrow> pystr \<Rightarrow> cell" where
  "written cl v =
     \<lparr>cvalue = Some v,
      cstyle = (if v = placeholder then highlighted (cstyle cl) else cstyle cl)\<rparr>"

text \<open>
  A cell after the field writer has handled the optional text \<open>v\<close> (for a date
  field: the normalized text): the text is stored when it is present and not empty,
  otherwise the placeholder is stored and the highlight applied.
\<close>

definition filled :: "cell \<Rightarrow> pystr option \<Rightarrow> cell" where
  "filled cl v =
     (if truthy_opt v then cl\<lparr>cvalue := v\<rparr>
      else \<lparr>cvalue = Some placeholder, cstyle = highlighted (cstyle cl)\<rparr>)"

text \<open>The five texts a work row stores, and the six of a project row, by column.\<close>

definition work_row_values :: "work_entry \<Rightarrow> pystr list" where
  "work_row_values exp =
     [or_placeholder (normalized (start_date exp)),
      or_placeholder (normalized (end_date exp)),
      or_placeholder (company exp),
      or_placeholder (position exp),
      bool_token (is_psbc_independent_dev exp)]"

definition project_row_values :: "project_entry \<Rightarrow> pystr list" where
  "project_row_values exp =
     [or_placeholder (normalized (p_start_date exp)),
      or_placeholder (normalized (p_end_date exp)),
      or_placeholder (project_name exp),
      or_placeholder (description exp),
      or_placeholder (role exp),
      bool_token (p_is_psbc_independent_dev exp)]"

text \<open>The branch of the classification loop an education entry takes.\<close>

datatype tier = Bachelor | Master | Doctorate

definition tier_of :: "education_entry \<Rightarrow> tier option" where
  "tier_of edu =
     (if contains benke (degree_type edu) then Some Bachelor
      else if contains shuoshi (degree_type edu) then Some Master
      else if contains boshi (degree_type edu) then Some Doctorate
      else None)"

text \<open>The last entry of a tier in list order.\<close>

definition last_of_tier :: "tier \<Rightarrow> education_entry list \<Rightarrow> education_entry option" where
  "last_of_tier t es =
     (case filter (\<lambda>e. tier_of e = Some t) es of [] \<Rightarrow> None | x # xs \<Rightarrow> Some (last (x # xs)))"

section \<open>Sample inputs\<close>

text \<open>A worksheet with no content, no style and no merged range.\<close>

definition blank_sheet :: generator where
  "blank_sheet = \<lparr>cells = (\<lambda>rc. empty_cell), merged_cells = [], row_offset = 0\<rparr>"

text \<open>
  A small template in the layout the generator expects: the work-history title in row
  31 (merged A to F), its column headers in row 32 (E and F merged), two example rows
  33 and 34 with different fills, the project title in row 36, two example rows 38 and
  39, and the skills title in row 41 (merged A to F).
\<close>

definition example_text :: pystr where
  "example_text = [101, 120, 97, 109, 112, 108, 101]"

definition work_title :: pystr where
  "work_title = [24037, 20316, 32463, 21382]"

definition sample_template :: generator where
  "sample_template =
     \<lparr>cells = (\<lambda>(r, c).
         if r = 31 \<and> c = 1 then \<lparr>cvalue = Some work_title, cstyle = default_style\<rparr>
         else if r = 32 \<and> 1 \<le> c \<and> c \<le> 5 then
           \<lparr>cvalue = Some (work_header_labels ! (c - 1)), cstyle = default_style\<rparr>
         else if (r = 33 \<or> r = 38) \<and> 1 \<le> c \<and> c \<le> 6 then
           \<lparr>cvalue = Some example_text, cstyle = default_style\<lparr>fill := TemplateFill 1\<rparr>\<rparr>
         else if (r = 34 \<or> r = 39) \<and> 1 \<le> c \<and> c \<le> 6 then
           \<lparr>cvalue = Some example_text, cstyle = default_style\<lparr>fill := TemplateFill 2\<rparr>\<rparr>
         else empty_cell),
      merged_cells =
        [\<lparr>min_row = 31, min_col = 1, max_row = 31, max_col = 6\<rparr>,
         \<lparr>min_row = 32, min_col = 5, max_row = 32, max_col = 6\<rparr>,
         \<lparr>min_row = 36, min_col = 1, max_row = 36, max_col = 6\<rparr>,
         \<lparr>min_row = 41, min_col = 1, max_row = 41, max_col = 6\<rparr>],
      row_offset = 0\<rparr>"

text \<open>A work entry and a project entry with every field present.\<close>

definition sample_job :: work_entry where
  "sample_job =
     \<lparr>start_date = Some [50, 48, 50, 48, 45, 48, 49],
      end_date = Some [50, 48, 50, 49, 45, 48, 51, 45, 48, 53],
      company = Some [65, 67, 77, 69],
      position = Some [68, 101, 118],
      is_psbc_independent_dev = Some False\<rparr>"

definition sample_project :: project_entry where
  "sample_project =
     \<lparr>p_start_date = Some [50, 48, 50, 48, 45, 48, 49],
      p_end_date = Some [50, 48, 50, 49, 45, 48, 51, 45, 48, 53],
      project_name = Some [80, 49],
      description = Some [100, 101, 115, 99],
      role = Some [68, 101, 118],
      p_is_psbc_independent_dev = Some True\<rparr>"

text \<open>Education entries: two of the Master tier, one of the Doctorate tier.\<close>

definition sample_master :: education_entry where
  "sample_master = empty_edu\<lparr>degree_type := shuoshi, university := Some [65]\<rparr>"


definition sample_doctor :: education_entry where
  "sample_doctor = empty_edu\<lparr>degree_type := boshi, university := Some [67]\<rparr>"

text \<open>A record with no section filled.\<close>

definition empty_resume :: resume_data where
  "empty_resume =
     \<lparr>error = None,
      basic = \<lparr>name = None, supplier = None\<rparr>,
      personal = \<lparr>id_card_number = None, birth_date = None, phone = None,
                  first_work_date = None, first_it_work_date = None,
                  highest_education = None, contract_level = None\<rparr>,
      education = [],
      work_experience = [],
      project_experience = [],
      technical = \<lparr>programming_languages = None, skills = None, certifications = None\<rparr>\<rparr>"


text \<open>Records with five and three work entries, with three projects, with two degrees.\<close>

definition five_jobs :: resume_data where
  "five_jobs =
     empty_resume\<lparr>work_experience :=
       [sample_job, sample_job, sample_job, sample_job, sample_job]\<rparr>"

definition three_jobs :: resume_data where
  "three_jobs = empty_resume\<lparr>work_experience := [sample_job, sample_job, sample_job]\<rparr>"

definition three_projects :: resume_data where
  "three_projects =
     empty_resume\<lparr>project_experience := [sample_project, sample_project, sample_project]\<rparr>"

definition one_job :: resume_data where
  "one_job = empty_resume\<lparr>work_experience := [sample_job]\<rparr>"

definition master_and_doctor :: resume_data where
  "master_and_doctor = empty_resume\<lparr>education := [sample_master, sample_doctor]\<rparr>"

section \<open>Properties of the date normalizer\<close>

lemma strip_id:
  assumes "s \<noteq> []" "\<not> is_space (hd s)" "\<not> is_space (last s)"
  shows "strip s = s"
proof -
  have 1: "dropWhile is_space s = s" using assms by (cases s) auto
  have 2: "dropWhile is_space (rev s) = rev s" using assms by (cases s rule: rev_cases) auto
  show ?thesis by (simp add: strip_def 1 2)
qed

lemma is_digit_01: "is_digit 48" "is_digit 49"
  by (simp_all add: is_digit_def digit_ranges_def)

lemma signs_not_digit: "\<not> is_digit hyphen" "\<not> is_digit nian" "\<not> is_digit yue" "\<not> is_digit ri"
  by (simp_all add: is_digit_def digit_ranges_def)

lemma digit_neq_hyphen: "is_digit c \<Longrightarrow> c \<noteq> hyphen"
  using signs_not_digit(1) by auto

lemma digit_gaps:
  assumes "c \<le> 47 \<or> (58 \<le> c \<and> c \<le> 1631) \<or> (4250 \<le> c \<and> c \<le> 6111) \<or> (7258 \<le> c \<and> c \<le> 42527)"
  shows "\<not> is_digit c"
  using assms by (auto simp: is_digit_def digit_ranges_def)

lemma digit_not_space: "is_digit c \<Longrightarrow> \<not> is_space c"
proof
  assume d: "is_digit c" and "is_space c"
  then have "c \<le> 47 \<or> (58 \<le> c \<and> c \<le> 1631) \<or> (4250 \<le> c \<and> c \<le> 6111) \<or> (7258 \<le> c \<and> c \<le> 42527)"
    by (auto simp: is_space_def)
  from digit_gaps[OF this] d show False by simp
qed

lemma match_ymd_strip: "match_ymd s \<Longrightarrow> strip s = s"
  by (erule match_ymd.elims) (auto intro!: strip_id simp: digit_not_space)

lemma match_ymd_fixed: "match_ymd s \<Longrightarrow> format_date (Some s) = Inr (Some s)"
  by (frule match_ymd_strip) (auto simp: format_date_def elim: match_ymd.elims)

lemma digits12_Some:
  assumes "digits12 s = Some (m, r)"
  shows "s = m @ r" "list_all is_digit m" "(\<exists>a. m = [a]) \<or> (\<exists>a b. m = [a, b])"
proof -
  from assms have m: "m = takeWhile is_digit s" and r: "r = dropWhile is_digit s"
    and len: "1 \<le> length m" "length m \<le> 2"
    by (auto simp: digits12_def Let_def split: if_splits)
  show "s = m @ r" by (simp add: m r)
  show "list_all is_digit m" unfolding m list_all_iff by (auto dest: set_takeWhileD)
  from len have "length m = 1 \<or> length m = 2" by arith
  then show "(\<exists>a. m = [a]) \<or> (\<exists>a b. m = [a, b])"
    by (auto simp: length_Suc_conv numeral_2_eq_2)
qed

lemma zfill2_digits:
  assumes "list_all is_digit m" "(\<exists>a. m = [a]) \<or> (\<exists>a b. m = [a, b])"
  shows "\<exists>a b. zfill 2 m = [a, b] \<and> is_digit a \<and> is_digit b"
  using assms by (auto simp: zfill_def is_digit_01 numeral_2_eq_2)

lemma year_nian_Some:
  assumes "year_nian s = Some (y, r)"
  shows "\<exists>a b c d. y = [a, b, c, d] \<and> is_digit a \<and> is_digit b \<and> is_digit c \<and> is_digit d \<and> s = y @ nian # r"
  using assms by (cases s rule: year_nian.cases) (auto split: if_splits)

lemma split_y1m: "match_y1m s \<Longrightarrow> \<exists>a b c d e. s = [a, b, c, d, hyphen, e] \<and> split hyphen s = [[a, b, c, d], [e]]
   \<and> is_digit a \<and> is_digit b \<and> is_digit c \<and> is_digit d \<and> is_digit e"
  by (erule match_y1m.elims) (auto simp: digit_neq_hyphen)

lemma canon_cn_ymd:
  assumes "match_cn_ymd s = Some (y, m, d)"
  shows "match_ymd (y @ [hyphen] @ zfill 2 m @ [hyphen] @ zfill 2 d)"
proof -
  from assms obtain r1 r3 r4 where
    y: "year_nian s = Some (y, r1)" and m: "digits12 r1 = Some (m, yue # r3)"
    and d: "digits12 r3 = Some (d, r4)"
    by (auto simp: match_cn_ymd_def split: option.splits list.splits if_splits)
  from year_nian_Some[OF y] obtain a b c e where
    yy: "y = [a, b, c, e]" "is_digit a" "is_digit b" "is_digit c" "is_digit e" by blast
  from zfill2_digits[OF digits12_Some(2,3)[OF m]] obtain m1 m2 where
    mm: "zfill 2 m = [m1, m2]" "is_digit m1" "is_digit m2" by blast
  from zfill2_digits[OF digits12_Some(2,3)[OF d]] obtain d1 d2 where
    dd: "zfill 2 d = [d1, d2]" "is_digit d1" "is_digit d2" by blast
  show ?thesis by (simp add: yy mm dd)
qed

lemma canon_cn_ym:
  assumes "match_cn_ym s = Some (y, m)"
  shows "match_ymd (y @ [hyphen] @ zfill 2 m @ [hyphen, 48, 49])"
proof -
  from assms obtain r1 where
    y: "year_nian s = Some (y, r1)" and m: "digits12 r1 = Some (m, [yue])"
    by (auto simp: match_cn_ym_def split: option.splits list.splits if_splits)
  from year_nian_Some[OF y] obtain a b c e where
    yy: "y = [a, b, c, e]" "is_digit a" "is_digit b" "is_digit c" "is_digit e" by blast
  from zfill2_digits[OF digits12_Some(2,3)[OF m]] obtain m1 m2 where
    mm: "zfill 2 m = [m1, m2]" "is_digit m1" "is_digit m2" by blast
  show ?thesis using yy mm by (simp add: is_digit_01)
qed

lemma format_date_nonblank:
  assumes "strip s0 \<noteq> []"
  shows "\<exists>d'. format_date (Some s0) = Inr (Some d') \<and>
     (if recognized (strip s0) then match_ymd d' else d' = strip s0)"
proof -
  let ?s = "strip s0"
  from assms have ne: "s0 \<noteq> []" by (auto simp: strip_def)
  consider (a) "match_ymd ?s" | (b) "\<not> match_ymd ?s" "match_ym ?s"
    | (c) "\<not> match_ymd ?s" "\<not> match_ym ?s" "match_y1m ?s"
    | (d) "\<not> match_ymd ?s" "\<not> match_ym ?s" "\<not> match_y1m ?s" "match_y ?s"
    | (e) "\<not> match_ymd ?s" "\<not> match_ym ?s" "\<not> match_y1m ?s" "\<not> match_y ?s" "match_cn_ymd ?s \<noteq> None"
    | (f) "\<not> match_ymd ?s" "\<not> match_ym ?s" "\<not> match_y1m ?s" "\<not> match_y ?s" "match_cn_ymd ?s = None" "match_cn_ym ?s \<noteq> None"
    | (g) "\<not> recognized ?s"
    unfolding recognized_def by blast
  then show ?thesis
  proof cases
    case a
    then show ?thesis using assms ne by (simp add: format_date_def recognized_def)
  next
    case b
    from b(2) have "match_ymd (?s @ [hyphen, 48, 49])"
      by (rule match_ym.elims) (auto simp: is_digit_01)
    then show ?thesis using b assms ne by (simp add: format_date_def recognized_def)
  next
    case c
    from split_y1m[OF c(3)] obtain a b c' d e where
      s: "split hyphen ?s = [[a, b, c', d], [e]]" "is_digit a" "is_digit b" "is_digit c'" "is_digit d" "is_digit e"
      by blast
    then show ?thesis using c assms ne
      by (simp add: format_date_def recognized_def index_def bind_exc_def is_digit_01)
  next
    case d
    from d(4) have "match_ymd (?s @ [hyphen, 48, 49, hyphen, 48, 49])"
      by (rule match_y.elims) (auto simp: is_digit_01)
    then show ?thesis using d assms ne by (simp add: format_date_def recognized_def)
  next
    case e
    then obtain y m d where "match_cn_ymd ?s = Some (y, m, d)" by auto
    then show ?thesis using e assms ne canon_cn_ymd[of ?s y m d]
      by (simp add: format_date_def recognized_def)
  next
    case f
    then obtain y m where "match_cn_ym ?s = Some (y, m)" by auto
    then show ?thesis using f assms ne canon_cn_ym[of ?s y m]
      by (simp add: format_date_def recognized_def)
  next
    case g
    then show ?thesis using assms ne
      by (auto simp: format_date_def recognized_def Let_def split: option.splits)
  qed
qed

lemma signs_not_space: "\<not> is_space yue" "\<not> is_space ri"
  by (simp_all add: is_space_def)

lemma blank_strip: "blank s \<longleftrightarrow> strip s = []"
proof
  assume "blank s"
  then have "dropWhile is_space s = []" by (simp add: blank_def list_all_iff)
  then show "strip s = []" unfolding strip_def by (simp only: rev.simps dropWhile.simps)
next
  assume "strip s = []"
  then have a: "\<forall>x \<in> set (dropWhile is_space s). is_space x"
    by (simp add: strip_def dropWhile_eq_Nil_conv)
  have "dropWhile is_space s = []"
  proof (rule ccontr)
    assume n: "dropWhile is_space s \<noteq> []"
    then have "\<not> is_space (hd (dropWhile is_space s))" by (rule hd_dropWhile)
    moreover have "hd (dropWhile is_space s) \<in> set (dropWhile is_space s)" using n by simp
    ultimately show False using a by blast
  qed
  then show "blank s" by (simp add: blank_def list_all_iff dropWhile_eq_Nil_conv)
qed

lemma recognized_strip:
  assumes "recognized s"
  shows "strip s = s \<and> s \<noteq> []"
proof -
  have "s \<noteq> [] \<and> \<not> is_space (hd s) \<and> \<not> is_space (last s)"
  proof -
    consider "match_ymd s" | "match_ym s" | "match_y1m s" | "match_y s"
      | "match_cn_ymd s \<noteq> None" | "match_cn_ym s \<noteq> None"
      using assms unfolding recognized_def by blast
    then show ?thesis
    proof cases
      case 1 then show ?thesis by (rule match_ymd.elims) (auto simp: digit_not_space)
    next
      case 2 then show ?thesis by (rule match_ym.elims) (auto simp: digit_not_space)
    next
      case 3 then show ?thesis by (rule match_y1m.elims) (auto simp: digit_not_space)
    next
      case 4 then show ?thesis by (rule match_y.elims) (auto simp: digit_not_space)
    next
      case 5
      then obtain y m d r1 r3 r4 where
        y: "year_nian s = Some (y, r1)" and m: "digits12 r1 = Some (m, yue # r3)"
        and d: "digits12 r3 = Some (d, r4)" and r4: "r4 = [] \<or> r4 = [ri]"
        by (auto simp: match_cn_ymd_def split: option.splits list.splits if_splits)
      from year_nian_Some[OF y] digits12_Some[OF m] digits12_Some[OF d] r4
      show ?thesis by (auto simp: digit_not_space signs_not_space)
    next
      case 6
      then obtain y m r1 where
        y: "year_nian s = Some (y, r1)" and m: "digits12 r1 = Some (m, [yue])"
        by (auto simp: match_cn_ym_def split: option.splits list.splits if_splits)
      from year_nian_Some[OF y] digits12_Some[OF m]
      show ?thesis by (auto simp: digit_not_space signs_not_space)
    qed
  qed
  then show ?thesis by (simp add: strip_id)
qed

text \<open>
  Claim C6. For every date text \<open>d\<close> that matches one of the six recognized patterns,
  the normalizer returns a text of the canonical shape \<^verbatim>\<open>YYYY-MM-DD\<close> (the first
  pattern), and normalizing that result again returns it unchanged.
\<close>

theorem format_date_idempotent:
  assumes "recognized d"
  shows "\<exists>d'. format_date (Some d) = Inr (Some d') \<and> match_ymd d' \<and>
           format_date (Some d') = Inr (Some d')"
proof -
  from recognized_strip[OF assms] have s: "strip d = d" "d \<noteq> []" by simp_all
  with format_date_nonblank[of d] assms obtain d' where
    d': "format_date (Some d) = Inr (Some d')" "match_ymd d'" by auto
  with match_ymd_fixed[of d'] show ?thesis by simp
qed

lemma format_date_total: "\<exists>r. format_date x = Inr r"
proof (cases x)
  case None
  then show ?thesis by (simp add: format_date_def)
next
  case (Some t)
  show ?thesis
  proof (cases "strip t = []")
    case True
    then show ?thesis using Some by (simp add: format_date_def)
  next
    case False
    from format_date_nonblank[OF False] show ?thesis using Some by auto
  qed
qed

text \<open>
  Claim C7, as the code has it. An absent input and a blank input give the absent value;
  a text that is not blank and whose stripped form matches no pattern is returned with
  its surrounding whitespace stripped (so unchanged when it has none); and the
  normalizer raises for no input.
\<close>

theorem format_date_absent_or_unrecognized:
  "format_date None = Inr None \<and>
   (blank s \<longrightarrow> format_date (Some s) = Inr None) \<and>
   (\<not> blank s \<and> \<not> recognized (strip s) \<longrightarrow> format_date (Some s) = Inr (Some (strip s))) \<and>
   (\<exists>r. format_date x = Inr r)"
proof -
  have 1: "format_date None = Inr None" by (simp add: format_date_def)
  have 2: "blank s \<longrightarrow> format_date (Some s) = Inr None"
    by (simp add: blank_strip format_date_def)
  have 3: "\<not> blank s \<and> \<not> recognized (strip s) \<longrightarrow> format_date (Some s) = Inr (Some (strip s))"
    using format_date_nonblank[of s] by (auto simp: blank_strip)
  have 4: "\<exists>r. format_date x = Inr r" by (rule format_date_total)
  from 1 2 3 4 show ?thesis by blast
qed

text \<open>
  Witness for C7: the blank text of a space and a tab, and the text \<^verbatim>\<open>" 2020/1"\<close>.
\<close>

theorem format_date_absent_or_unrecognized_witness:
  "blank [32, 9] \<and> format_date (Some [32, 9]) = Inr None \<and>
    \<not> blank [32, 50, 48, 50, 48, 47, 49] \<and> \<not> recognized (strip [32, 50, 48, 50, 48, 47, 49]) \<and>
    format_date (Some [32, 50, 48, 50, 48, 47, 49]) = Inr (Some [50, 48, 50, 48, 47, 49])"
proof -
  have b: "blank [32, 9]" by (simp add: blank_def is_space_def)
  have s: "strip [32, 50, 48, 50, 48, 47, 49] = [50, 48, 50, 48, 47, 49]"
    by (simp add: strip_def is_space_def)
  have nb: "\<not> blank [32, 50, 48, 50, 48, 47, 49]" by (simp add: blank_def is_space_def)
  have nr: "\<not> recognized (strip [32, 50, 48, 50, 48, 47, 49])"
    unfolding s by (simp add: recognized_def match_cn_ymd_def match_cn_ym_def digits12_def is_digit_def digit_ranges_def)
  from format_date_absent_or_unrecognized[of "[32, 9]" "undefined"] b
       format_date_absent_or_unrecognized[of "[32, 50, 48, 50, 48, 47, 49]" "undefined"] nb nr s
  show ?thesis by simp
qed

text \<open>
  Counterexample to C7 as stated: the text \<^verbatim>\<open>" 2020/1"\<close> is not blank and matches no
  pattern, and the normalizer does not return it unchanged (it returns \<^verbatim>\<open>"2020/1"\<close>).
\<close>

theorem format_date_unchanged_counterexample:
  "\<not> blank [32, 50, 48, 50, 48, 47, 49] \<and> \<not> recognized [32, 50, 48, 50, 48, 47, 49] \<and>
    format_date (Some [32, 50, 48, 50, 48, 47, 49]) \<noteq> Inr (Some [32, 50, 48, 50, 48, 47, 49])"
  by (simp add: blank_def is_space_def recognized_def match_cn_ymd_def match_cn_ym_def digits12_def is_digit_def digit_ranges_def
     format_date_def strip_def)

text \<open>Witness for C6: the localized text for May 2020.\<close>

theorem format_date_idempotent_witness:
  "recognized [50, 48, 50, 48, nian, 53, yue] \<and> 
   format_date (Some [50, 48, 50, 48, nian, 53, yue]) = Inr (Some [50,48,50,48,45,48,53,45,48,49])"
proof -
  have r: "recognized [50, 48, 50, 48, nian, 53, yue]"
    by (simp add: recognized_def match_cn_ym_def digits12_def is_digit_def digit_ranges_def)
  have "format_date (Some [50, 48, 50, 48, nian, 53, yue]) = Inr (Some [50,48,50,48,45,48,53,45,48,49])"
    by (simp add: format_date_def strip_def is_space_def match_cn_ymd_def match_cn_ym_def digits12_def is_digit_def digit_ranges_def zfill_def)
  with r format_date_idempotent[OF r] show ?thesis by simp
qed

text \<open>
  The digits of the patterns are the Unicode decimal digits: the full-width year 2020
  is recognized and gets the month and the day appended.
\<close>

lemma format_date_fullwidth_year:
  "format_date (Some [65298, 65296, 65298, 65296]) =
     Inr (Some [65298, 65296, 65298, 65296, 45, 48, 49, 45, 48, 49])"
  by (simp add: format_date_def strip_def is_space_def is_digit_def digit_ranges_def)

section \<open>Cells, row writers and the field writer\<close>

lemma format_date_normalized: "format_date x = Inr (normalized x)"
  using format_date_total[of x] by (auto simp: normalized_def)

lemma set_value_simps [simp]:
  "cells (set_value g r c v) = (cells g)((r, c) := (cells g (r, c))\<lparr>cvalue := v\<rparr>)"
  "merged_cells (set_value g r c v) = merged_cells g"
  "row_offset (set_value g r c v) = row_offset g"
  by (simp_all add: set_value_def)

lemma set_style_simps [simp]:
  "cells (set_style g r c s) = (cells g)((r, c) := (cells g (r, c))\<lparr>cstyle := s\<rparr>)"
  "merged_cells (set_style g r c s) = merged_cells g"
  "row_offset (set_style g r c s) = row_offset g"
  by (simp_all add: set_style_def)

lemma highlight_simps [simp]:
  "cells (highlight g r c) =
     (cells g)((r, c) := (cells g (r, c))\<lparr>cstyle := highlighted (cstyle (cells g (r, c)))\<rparr>)"
  "merged_cells (highlight g r c) = merged_cells g"
  "row_offset (highlight g r c) = row_offset g"
  by (simp_all add: highlight_def highlighted_def)

lemma tokens_not_placeholder: "yes_token \<noteq> placeholder" "no_token \<noteq> placeholder"
  by (simp_all add: yes_token_def no_token_def placeholder_def)

lemma foldl_hl_cells:
  "cells (foldl (\<lambda>g' col. highlight_if_placeholder g' row col) g cs) (r, c) =
     (if r = row \<and> c \<in> set cs \<and> cvalue (cells g (r, c)) = Some placeholder
      then (cells g (r, c))\<lparr>cstyle := highlighted (cstyle (cells g (r, c)))\<rparr>
      else cells g (r, c))"
proof (induction cs arbitrary: g)
  case Nil
  then show ?case by simp
next
  case (Cons a cs)
  show ?case
    by (simp add: Cons.IH) (auto simp: highlight_if_placeholder_def highlighted_def)
qed

lemma foldl_hl_other:
  "merged_cells (foldl (\<lambda>g' col. highlight_if_placeholder g' row col) g cs) = merged_cells g"
  "row_offset (foldl (\<lambda>g' col. highlight_if_placeholder g' row col) g cs) = row_offset g"
  by (induction cs arbitrary: g) (auto simp: highlight_if_placeholder_def)

lemma set_values_cells:
  "distinct (map (\<lambda>(r, c, v). (r, c)) xs) \<Longrightarrow>
   cells (set_values g xs) (r, c) =
     (case map_of (map (\<lambda>(r, c, v). ((r, c), v)) xs) (r, c) of
        None \<Rightarrow> cells g (r, c)
      | Some v \<Rightarrow> (cells g (r, c))\<lparr>cvalue := Some v\<rparr>)"
proof (induction xs arbitrary: g)
  case Nil
  then show ?case by simp
next
  case (Cons a xs)
  obtain r' c' v' where a: "a = (r', c', v')" by (cases a)
  from Cons.prems have d: "distinct (map (\<lambda>(r, c, v). (r, c)) xs)"
    and n: "(r', c') \<notin> set (map (\<lambda>(r, c, v). (r, c)) xs)" by (auto simp: a)
  have m: "map_of (map (\<lambda>(r, c, v). ((r, c), v)) xs) (r', c') = None"
    using n by (force simp: map_of_eq_None_iff image_iff)
  show ?case using m
    by (auto simp: a Cons.IH[OF d] split: option.splits)
qed

lemma set_values_other:
  "merged_cells (set_values g xs) = merged_cells g"
  "row_offset (set_values g xs) = row_offset g"
  by (induction xs arbitrary: g) auto

lemma fill_work_row_eq:
  "fill_work_row g row exp =
     Inr (g\<lparr>cells := (\<lambda>(r, c). if r = row \<and> 1 \<le> c \<and> c \<le> 5
                                then written (cells g (r, c)) (work_row_values exp ! (c - 1))
                                else cells g (r, c))\<rparr>)"
proof -
  let ?xs = "[(row, 1::nat, or_placeholder (normalized (start_date exp))),
              (row, 2, or_placeholder (normalized (end_date exp))),
              (row, 3, or_placeholder (company exp)),
              (row, 4, or_placeholder (position exp)),
              (row, 5, bool_token (is_psbc_independent_dev exp))]"
  let ?g' = "foldl (\<lambda>g' col. highlight_if_placeholder g' row col) (set_values g ?xs) [1..<6]"
  have 1: "fill_work_row g row exp = Inr ?g'"
    by (simp add: fill_work_row_def format_date_normalized bind_exc_def)
  have s: "set [1..<6] = {1, 2, 3, 4, 5::nat}" by auto
  have d: "distinct (map (\<lambda>(r, c, v). (r, c)) ?xs)" by simp
  have c: "cells ?g' = (\<lambda>(r, c). if r = row \<and> 1 \<le> c \<and> c \<le> 5
                                then written (cells g (r, c)) (work_row_values exp ! (c - 1))
                                else cells g (r, c))"
  proof (rule ext, clarify)
    fix r c :: nat
    consider "r \<noteq> row" | "r = row" "c = 1" | "r = row" "c = 2" | "r = row" "c = 3"
      | "r = row" "c = 4" | "r = row" "c = 5" | "r = row" "c = 0" | "r = row" "5 < c"
      by arith
    then show "cells ?g' (r, c) = (if r = row \<and> 1 \<le> c \<and> c \<le> 5
                                then written (cells g (r, c)) (work_row_values exp ! (c - 1))
                                else cells g (r, c))"
      by cases
        (simp_all add: foldl_hl_cells s written_def work_row_values_def)
  qed
  have "?g' = g\<lparr>cells := cells ?g'\<rparr>"
    by (rule generator.equality) (simp_all add: foldl_hl_other set_values_other)
  with 1 c show ?thesis by simp
qed

lemma fill_project_row_eq:
  "fill_project_row g row exp =
     Inr (g\<lparr>cells := (\<lambda>(r, c). if r = row \<and> 1 \<le> c \<and> c \<le> 6
                                then written (cells g (r, c)) (project_row_values exp ! (c - 1))
                                else cells g (r, c))\<rparr>)"
proof -
  let ?xs = "[(row, 1::nat, or_placeholder (normalized (p_start_date exp))),
              (row, 2, or_placeholder (normalized (p_end_date exp))),
              (row, 3, or_placeholder (project_name exp)),
              (row, 4, or_placeholder (description exp)),
              (row, 5, or_placeholder (role exp)),
              (row, 6, bool_token (p_is_psbc_independent_dev exp))]"
  let ?g' = "foldl (\<lambda>g' col. highlight_if_placeholder g' row col) (set_values g ?xs) [1..<7]"
  have 1: "fill_project_row g row exp = Inr ?g'"
    by (simp add: fill_project_row_def format_date_normalized bind_exc_def)
  have s: "set [1..<7] = {1, 2, 3, 4, 5, 6::nat}" by auto
  have c: "cells ?g' = (\<lambda>(r, c). if r = row \<and> 1 \<le> c \<and> c \<le> 6
                                then written (cells g (r, c)) (project_row_values exp ! (c - 1))
                                else cells g (r, c))"
  proof (rule ext, clarify)
    fix r c :: nat
    consider "r \<noteq> row" | "r = row" "c = 1" | "r = row" "c = 2" | "r = row" "c = 3"
      | "r = row" "c = 4" | "r = row" "c = 5" | "r = row" "c = 6" | "r = row" "c = 0"
      | "r = row" "6 < c"
      by arith
    then show "cells ?g' (r, c) = (if r = row \<and> 1 \<le> c \<and> c \<le> 6
                                then written (cells g (r, c)) (project_row_values exp ! (c - 1))
                                else cells g (r, c))"
      by cases
        (simp_all add: foldl_hl_cells s written_def project_row_values_def)
  qed
  have "?g' = g\<lparr>cells := cells ?g'\<rparr>"
    by (rule generator.equality) (simp_all add: foldl_hl_other set_values_other)
  with 1 c show ?thesis by simp
qed

lemma fill_cell_absent:
  assumes "v = PNone \<or> v = PStr [] \<or> v = PList []"
  shows "fill_cell g row col v ao isd =
           Inr (highlight (set_value g (if ao then get_actual_row g row else row) col (Some placeholder))
                  (if ao then get_actual_row g row else row) col)"
  using assms by (auto simp: fill_cell_def bind_exc_def Let_def)

lemma fill_cell_bool:
  "fill_cell g row col (PBool b) ao False =
     Inr (set_value g (if ao then get_actual_row g row else row) col
            (Some (if b then yes_token else no_token)))"
  by (simp add: fill_cell_def bind_exc_def Let_def)

lemma fill_cell_text:
  "s \<noteq> [] \<Longrightarrow> fill_cell g row col (PStr s) ao False =
     Inr (set_value g (if ao then get_actual_row g row else row) col (Some s))"
  by (simp add: fill_cell_def bind_exc_def Let_def)

lemma fill_cell_list:
  "xs \<noteq> [] \<Longrightarrow> fill_cell g row col (PList xs) ao False =
     Inr (set_value g (if ao then get_actual_row g row else row) col (Some (join list_sep xs)))"
  by (simp add: fill_cell_def bind_exc_def Let_def)

lemma normalized_nonblank:
  assumes "\<not> blank s"
  shows "\<exists>d. normalized (Some s) = Some d \<and> d \<noteq> []"
proof -
  from assms have n: "strip s \<noteq> []" by (simp add: blank_strip)
  from format_date_nonblank[OF n] obtain d where
    d: "format_date (Some s) = Inr (Some d)" "if recognized (strip s) then match_ymd d else d = strip s"
    by blast
  have "d \<noteq> []" using d(2) n by (auto split: if_splits)
  with d(1) show ?thesis by (simp add: normalized_def)
qed

lemma normalized_blank: "blank s \<Longrightarrow> normalized (Some s) = None"
  by (simp add: normalized_def format_date_def blank_strip)

lemma normalized_None [simp]: "normalized None = None"
  by (simp add: normalized_def format_date_def)

lemma fill_cell_date:
  assumes "\<not> blank s"
  shows "fill_cell g row col (PStr s) ao True =
     Inr (set_value g (if ao then get_actual_row g row else row) col (normalized (Some s)))"
proof -
  from assms have ne: "s \<noteq> []" by (auto simp: blank_def)
  from normalized_nonblank[OF assms] obtain d where d: "normalized (Some s) = Some d" "d \<noteq> []"
    by blast
  show ?thesis using ne d
    by (simp add: fill_cell_def bind_exc_def format_date_normalized Let_def)
qed

lemma fill_cell_date_blank:
  assumes "blank s"
  shows "fill_cell g row col (PStr s) ao True =
           Inr (highlight (set_value g (if ao then get_actual_row g row else row) col (Some placeholder))
                  (if ao then get_actual_row g row else row) col)"
  using assms
  by (cases "s = []") (simp_all add: fill_cell_def bind_exc_def format_date_normalized normalized_blank Let_def)

lemma last_of_tier_Cons:
  "last_of_tier t (e # es) =
     (case last_of_tier t es of
        Some x \<Rightarrow> Some x
      | None \<Rightarrow> if tier_of e = Some t then Some e else None)"
  by (simp add: last_of_tier_def split: list.splits)

lemma classify_Cons:
  "classify (u, m, d) (e # es) =
     classify (if tier_of e = Some Bachelor then Some e else u,
               if tier_of e = Some Master then Some e else m,
               if tier_of e = Some Doctorate then Some e else d) es"
  by (simp add: tier_of_def)

lemma classify_last:
  "classify (u, m, d) es =
     (case last_of_tier Bachelor es of None \<Rightarrow> u | Some x \<Rightarrow> Some x,
      case last_of_tier Master es of None \<Rightarrow> m | Some x \<Rightarrow> Some x,
      case last_of_tier Doctorate es of None \<Rightarrow> d | Some x \<Rightarrow> Some x)"
proof (induction es arbitrary: u m d)
  case Nil
  then show ?case by (simp add: last_of_tier_def)
next
  case (Cons e es)
  show ?case
    unfolding classify_Cons Cons.IH last_of_tier_Cons
    by (simp split: option.splits)
qed



section \<open>Row insertion and the repeating sections\<close>

lemma style_copy:
  "s\<lparr>font := font t, border := border t, fill := fill t, number_format := number_format t,
      protection := protection t, alignment := alignment t\<rparr> = (t::style)"
  by (cases s, cases t) simp

lemma merge_cells_simps [simp]:
  "cells (merge_cells g r) = cells g"
  "row_offset (merge_cells g r) = row_offset g"
  "merged_cells (merge_cells g r) = (if r \<in> set (merged_cells g) then merged_cells g else merged_cells g @ [r])"
  by (simp_all add: merge_cells_def)

lemma unmerge_all_simps [simp]:
  "cells (unmerge_all g rs) = cells g"
  "row_offset (unmerge_all g rs) = row_offset g"
  "merged_cells (unmerge_all g rs) = filter (\<lambda>r. r \<notin> set rs) (merged_cells g)"
  by (simp_all add: unmerge_all_def)

lemma insert_rows_simps [simp]:
  "cells (insert_rows g idx amount) (r, c) =
     (if r < idx then cells g (r, c)
      else if r < idx + amount then empty_cell else cells g (r - amount, c))"
  "row_offset (insert_rows g idx amount) = row_offset g"
  "merged_cells (insert_rows g idx amount) = map (shift_rect idx amount) (merged_cells g)"
  by (simp_all add: insert_rows_def)

lemma copy_cell_style_simps:
  "cells (copy_cell_style g src tgt col) =
     (if has_style (cells g (src, col))
      then (cells g)((tgt, col) := (cells g (tgt, col))\<lparr>cstyle := cstyle (cells g (src, col))\<rparr>)
      else cells g)"
  "row_offset (copy_cell_style g src tgt col) = row_offset g"
  "merged_cells (copy_cell_style g src tgt col) = merged_cells g"
  by (simp_all add: copy_cell_style_def Let_def style_copy)

lemma copy_cols_cells:
  assumes "src \<noteq> tgt"
  shows "cells (foldl (\<lambda>g' col. copy_cell_style g' src tgt col) g cs) (r, c) =
     (if r = tgt \<and> c \<in> set cs \<and> has_style (cells g (src, c))
      then (cells g (r, c))\<lparr>cstyle := cstyle (cells g (src, c))\<rparr>
      else cells g (r, c))"
proof (induction cs arbitrary: g)
  case Nil
  then show ?case by simp
next
  case (Cons a cs)
  show ?case using assms by (auto simp: Cons.IH copy_cell_style_simps)
qed

lemma copy_cols_other:
  "row_offset (foldl (\<lambda>g' col. copy_cell_style g' src tgt col) g cs) = row_offset g"
  "merged_cells (foldl (\<lambda>g' col. copy_cell_style g' src tgt col) g cs) = merged_cells g"
  by (induction cs arbitrary: g) (simp_all add: copy_cell_style_simps)

lemma copy_row_style_cells:
  assumes "src \<noteq> tgt"
  shows "cells (copy_row_style g src tgt n) (r, c) =
     (if r = tgt \<and> 1 \<le> c \<and> c \<le> n \<and> has_style (cells g (src, c))
      then (cells g (r, c))\<lparr>cstyle := cstyle (cells g (src, c))\<rparr>
      else cells g (r, c))"
proof -
  have "c \<in> set [1..<n + 1] \<longleftrightarrow> 1 \<le> c \<and> c \<le> n" by auto
  then show ?thesis unfolding copy_row_style_def copy_cols_cells[OF assms] by simp
qed

lemma copy_row_style_other [simp]:
  "row_offset (copy_row_style g src tgt n) = row_offset g"
  "merged_cells (copy_row_style g src tgt n) = merged_cells g"
  by (simp_all add: copy_row_style_def copy_cols_other)

text \<open>The style loops: sources above the block of target rows.\<close>

lemma copy_block_cells:
  assumes "\<forall>i<k. s i < b"
  shows "cells (foldl (\<lambda>g' i. copy_row_style g' (s i) (b + i) n) g [0..<k]) (r, c) =
     (if b \<le> r \<and> r < b + k \<and> 1 \<le> c \<and> c \<le> n \<and> has_style (cells g (s (r - b), c))
      then (cells g (r, c))\<lparr>cstyle := cstyle (cells g (s (r - b), c))\<rparr>
      else cells g (r, c))"
  using assms
proof (induction k arbitrary: r c)
  case 0
  then show ?case by auto
next
  case (Suc k)
  let ?gk = "foldl (\<lambda>g' i. copy_row_style g' (s i) (b + i) n) g [0..<k]"
  from Suc.prems have sk: "s k < b" and prev: "\<forall>i<k. s i < b" by auto
  have ne: "s k \<noteq> b + k" using sk by simp
  have src: "cells ?gk (s k, c) = cells g (s k, c)" for c
    using sk by (simp add: Suc.IH[OF prev])
  show ?case
  proof (cases "r = b + k")
    case True
    then show ?thesis using sk
      by (auto simp: copy_row_style_cells[OF ne] src Suc.IH[OF prev])
  next
    case False
    then have "(b \<le> r \<and> r < b + Suc k) = (b \<le> r \<and> r < b + k)" by arith
    then show ?thesis using False sk
      by (auto simp: copy_row_style_cells[OF ne] Suc.IH[OF prev])
  qed
qed

lemma copy_block_other [simp]:
  "row_offset (foldl (\<lambda>g' i. copy_row_style g' (s i) (t i) n) g is) = row_offset g"
  "merged_cells (foldl (\<lambda>g' i. copy_row_style g' (s i) (t i) n) g is) = merged_cells g"
  by (induction "is" arbitrary: g) simp_all

lemma has_style_cstyle:
  "(if has_style cl then x\<lparr>cstyle := cstyle cl\<rparr> else x\<lparr>cstyle := default_style\<rparr>) = x\<lparr>cstyle := cstyle cl\<rparr>"
  by (simp add: has_style_def)

lemma fill_work_rows_eq:
  "fill_work_rows g row ws =
     Inr (g\<lparr>cells := (\<lambda>(r, c). if row \<le> r \<and> r < row + length ws \<and> 1 \<le> c \<and> c \<le> 5
                                then written (cells g (r, c)) (work_row_values (ws ! (r - row)) ! (c - 1))
                                else cells g (r, c))\<rparr>)"
proof (induction ws arbitrary: g row)
  case Nil
  have "(\<lambda>(r, c). if row \<le> r \<and> r < row + length ([]::work_entry list) \<and> 1 \<le> c \<and> c \<le> 5
                   then written (cells g (r, c)) (work_row_values ([] ! (r - row)) ! (c - 1))
                   else cells g (r, c)) = cells g"
    by (auto simp: fun_eq_iff)
  then show ?case by simp
next
  case (Cons w ws)
  show ?case
    by (simp add: fill_work_row_eq bind_exc_def Cons.IH) (auto simp: fun_eq_iff nth_Cons')
qed

lemma fill_project_rows_eq:
  "fill_project_rows g row ps =
     Inr (g\<lparr>cells := (\<lambda>(r, c). if row \<le> r \<and> r < row + length ps \<and> 1 \<le> c \<and> c \<le> 6
                                then written (cells g (r, c)) (project_row_values (ps ! (r - row)) ! (c - 1))
                                else cells g (r, c))\<rparr>)"
proof (induction ps arbitrary: g row)
  case Nil
  have "(\<lambda>(r, c). if row \<le> r \<and> r < row + length ([]::project_entry list) \<and> 1 \<le> c \<and> c \<le> 6
                   then written (cells g (r, c)) (project_row_values ([] ! (r - row)) ! (c - 1))
                   else cells g (r, c)) = cells g"
    by (auto simp: fun_eq_iff)
  then show ?case by simp
next
  case (Cons p ps)
  show ?case
    by (simp add: fill_project_row_eq bind_exc_def Cons.IH) (auto simp: fun_eq_iff nth_Cons')
qed

lemma filter_not_in_filter:
  "filter (\<lambda>r. r \<notin> set (filter P ms)) ms = filter (\<lambda>r. \<not> P r) ms"
  by (rule filter_cong) auto

lemma shift_rect_above: "min_row mr < idx \<Longrightarrow> shift_rect idx amount mr = mr"
  by (simp add: shift_rect_def)

lemma map_shift_filter_above:
  "map (shift_rect idx amount) (filter (\<lambda>mr. \<not> idx \<le> min_row mr) ms) =
     filter (\<lambda>mr. min_row mr < idx) ms"
  by (induction ms) (auto simp: shift_rect_def)

text \<open>The grid after the insertion step of a repeating section.\<close>

lemma expand_cells:
  assumes "R < at"
  shows "cells (foldl (\<lambda>g' i. copy_row_style g' R (at + i) 15) (insert_rows g at E) [0..<E]) (r, c) =
     (if r < at then cells g (r, c)
      else if r < at + E then
        (if 1 \<le> c \<and> c \<le> 15 then empty_cell\<lparr>cstyle := cstyle (cells g (R, c))\<rparr> else empty_cell)
      else cells g (r - E, c))"
proof -
  have s: "\<forall>i<E. R < at" using assms by simp
  have d: "empty_cell\<lparr>cstyle := default_style\<rparr> = empty_cell" by (simp add: empty_cell_def)
  show ?thesis
    unfolding copy_block_cells[where s = "\<lambda>i. R", OF s]
    using assms by (auto simp: has_style_def d)
qed

lemma fill_work_experience_expand:
  assumes "2 < length (work_experience data)"
  shows "\<exists>g'. fill_work_experience g data = Inr g' \<and>
     row_offset g' = row_offset g + (length (work_experience data) - 2) \<and>
     merged_cells g' =
       filter (\<lambda>mr. \<not> (get_actual_row g 33 \<le> min_row mr \<and>
                        min_row mr < get_actual_row g 33 + length (work_experience data) \<and>
                        2 \<le> min_col mr \<and> 3 \<le> max_col mr))
         (map (shift_rect (get_actual_row g 33 + 2) (length (work_experience data) - 2))
            (merged_cells g)) \<and>
     (\<forall>r c. cells g' (r, c) =
        (let R = get_actual_row g 33; N = length (work_experience data);
             base = (if r < R + 2 then cells g (r, c)
                     else if r < R + N then
                       (if 1 \<le> c \<and> c \<le> 15 then empty_cell\<lparr>cstyle := cstyle (cells g (R, c))\<rparr>
                        else empty_cell)
                     else cells g (r - (N - 2), c))
         in if R \<le> r \<and> r < R + N \<and> 1 \<le> c \<and> c \<le> 5
            then written base (work_row_values (work_experience data ! (r - R)) ! (c - 1))
            else base))"
proof -
  define ws where "ws = work_experience data"
  define R where "R = get_actual_row g 33"
  define N where "N = length ws"
  define E where "E = N - 2"
  define gb where "gb = foldl (\<lambda>g' i. copy_row_style g' R (R + 2 + i) 15) (insert_rows g (R + 2) E) [0..<E]"
  define g1 where "g1 = gb\<lparr>row_offset := row_offset gb + E\<rparr>"
  define P where "P = (\<lambda>mr::rect. R \<le> min_row mr \<and> min_row mr < R + N \<and> 2 \<le> min_col mr \<and> 3 \<le> max_col mr)"
  define g2 where "g2 = unmerge_all g1 (filter P (merged_cells g1))"
  from assms have ne: "ws \<noteq> []" and E: "0 < E" and NE: "R + 2 + E = R + N" and N2: "\<not> N < 2"
    by (auto simp: ws_def N_def E_def)
  have step: "fill_work_experience g data = fill_work_rows g2 R ws"
    using ne E N2
    unfolding fill_work_experience_def Let_def ws_def[symmetric] R_def[symmetric] N_def[symmetric]
      E_def[symmetric] gb_def[symmetric] g1_def[symmetric] P_def[symmetric]
    by (simp add: fill_work_rows_eq bind_exc_def g2_def)
  have lt: "R < R + 2" by simp
  have c2: "cells g2 (r, c) =
     (if r < R + 2 then cells g (r, c)
      else if r < R + N then
        (if 1 \<le> c \<and> c \<le> 15 then empty_cell\<lparr>cstyle := cstyle (cells g (R, c))\<rparr> else empty_cell)
      else cells g (r - E, c))" for r c
  proof -
    have "cells g2 (r, c) = cells gb (r, c)" by (simp add: g2_def g1_def)
    also have "\<dots> = (if r < R + 2 then cells g (r, c)
      else if r < R + 2 + E then
        (if 1 \<le> c \<and> c \<le> 15 then empty_cell\<lparr>cstyle := cstyle (cells g (R, c))\<rparr> else empty_cell)
      else cells g (r - E, c))"
      unfolding gb_def by (rule expand_cells[OF lt])
    finally show ?thesis unfolding NE .
  qed
  have o2: "row_offset g2 = row_offset g + E"
    unfolding g2_def g1_def gb_def by simp
  have m1: "merged_cells g1 = map (shift_rect (R + 2) E) (merged_cells g)"
    unfolding g1_def gb_def by simp
  have m2: "merged_cells g2 = filter (\<lambda>mr. \<not> P mr) (map (shift_rect (R + 2) E) (merged_cells g))"
    unfolding g2_def by (simp only: unmerge_all_simps filter_not_in_filter m1)
  show ?thesis
    unfolding step fill_work_rows_eq Let_def ws_def[symmetric] R_def[symmetric] N_def[symmetric]
      E_def[symmetric]
    by (simp add: o2 m2 c2 P_def)
qed

lemma fill_project_experience_expand:
  assumes "2 < length (project_experience data)"
  shows "\<exists>g'. fill_project_experience g data = Inr g' \<and>
     row_offset g' = row_offset g + (length (project_experience data) - 2) \<and>
     merged_cells g' = filter (\<lambda>mr. min_row mr < get_actual_row g 38 + 2) (merged_cells g) \<and>
     (\<forall>r c. cells g' (r, c) =
        (let R = get_actual_row g 38; N = length (project_experience data);
             base = (if r < R + 2 then cells g (r, c)
                     else if r < R + N then
                       (if 1 \<le> c \<and> c \<le> 15 then empty_cell\<lparr>cstyle := cstyle (cells g (R, c))\<rparr>
                        else empty_cell)
                     else cells g (r - (N - 2), c))
         in if R \<le> r \<and> r < R + N \<and> 1 \<le> c \<and> c \<le> 6
            then written base (project_row_values (project_experience data ! (r - R)) ! (c - 1))
            else base))"
proof -
  define ps where "ps = project_experience data"
  define R where "R = get_actual_row g 38"
  define N where "N = length ps"
  define E where "E = N - 2"
  define ga where "ga = unmerge_all g (filter (\<lambda>mr. R + 2 \<le> min_row mr) (merged_cells g))"
  define gc where "gc = foldl (\<lambda>g' i. copy_row_style g' R (R + 2 + i) 15) (insert_rows ga (R + 2) E) [0..<E]"
  define g1 where "g1 = gc\<lparr>row_offset := row_offset gc + E\<rparr>"
  from assms have ne: "ps \<noteq> []" and E: "0 < E" and NE: "R + 2 + E = R + N"
    by (auto simp: ps_def N_def E_def)
  have step: "fill_project_experience g data = fill_project_rows g1 R ps"
    using ne E
    unfolding fill_project_experience_def Let_def ps_def[symmetric] R_def[symmetric] N_def[symmetric]
      E_def[symmetric] ga_def[symmetric] gc_def[symmetric]
    by (simp add: g1_def)
  have lt: "R < R + 2" by simp
  have ca: "cells ga = cells g" by (simp add: ga_def)
  have c1: "cells g1 (r, c) =
     (if r < R + 2 then cells g (r, c)
      else if r < R + N then
        (if 1 \<le> c \<and> c \<le> 15 then empty_cell\<lparr>cstyle := cstyle (cells g (R, c))\<rparr> else empty_cell)
      else cells g (r - E, c))" for r c
  proof -
    have "cells g1 (r, c) = cells gc (r, c)" by (simp add: g1_def)
    also have "\<dots> = (if r < R + 2 then cells ga (r, c)
      else if r < R + 2 + E then
        (if 1 \<le> c \<and> c \<le> 15 then empty_cell\<lparr>cstyle := cstyle (cells ga (R, c))\<rparr> else empty_cell)
      else cells ga (r - E, c))"
      unfolding gc_def by (rule expand_cells[OF lt])
    finally show ?thesis unfolding NE ca .
  qed
  have o1: "row_offset g1 = row_offset g + E"
    unfolding g1_def gc_def ga_def by simp
  have ma: "merged_cells ga = filter (\<lambda>mr. \<not> R + 2 \<le> min_row mr) (merged_cells g)"
    unfolding ga_def by (simp only: unmerge_all_simps filter_not_in_filter)
  have m1: "merged_cells g1 = filter (\<lambda>mr. min_row mr < R + 2) (merged_cells g)"
    unfolding g1_def gc_def by (simp add: ma map_shift_filter_above del: add_2_eq_Suc add_2_eq_Suc')
  show ?thesis
    unfolding step fill_project_rows_eq Let_def ps_def[symmetric] R_def[symmetric] N_def[symmetric]
      E_def[symmetric]
    by (simp add: o1 m1 c1 del: add_2_eq_Suc add_2_eq_Suc')
qed

lemma clear_row_cells:
  "cells (clear_row g row) (r, c) =
     (if r = row \<and> 1 \<le> c \<and> c \<le> 5 then (cells g (r, c))\<lparr>cvalue := None\<rparr> else cells g (r, c))"
proof -
  have "cells (foldl (\<lambda>g' col. set_value g' row col None) g cs) (r, c) =
     (if r = row \<and> c \<in> set cs then (cells g (r, c))\<lparr>cvalue := None\<rparr> else cells g (r, c))" for cs
    by (induction cs arbitrary: g) auto
  moreover have "c \<in> set [1..<6] \<longleftrightarrow> 1 \<le> c \<and> c \<le> 5" by auto
  ultimately show ?thesis by (simp add: clear_row_def)
qed

lemma clear_row_other [simp]:
  "row_offset (clear_row g row) = row_offset g"
  "merged_cells (clear_row g row) = merged_cells g"
proof -
  have "row_offset (foldl (\<lambda>g' col. set_value g' row col None) g cs) = row_offset g \<and>
        merged_cells (foldl (\<lambda>g' col. set_value g' row col None) g cs) = merged_cells g" for cs
    by (induction cs arbitrary: g) auto
  then show "row_offset (clear_row g row) = row_offset g"
    "merged_cells (clear_row g row) = merged_cells g"
    by (simp_all add: clear_row_def)
qed

lemma fill_work_experience_single:
  assumes "work_experience data = [w]"
  shows "\<exists>g'. fill_work_experience g data = Inr g' \<and>
     row_offset g' = row_offset g \<and>
     (\<forall>r c. cells g' (r, c) =
        (if r = get_actual_row g 33 \<and> 1 \<le> c \<and> c \<le> 5
         then written (cells g (r, c)) (work_row_values w ! (c - 1))
         else if r = get_actual_row g 33 + 1 \<and> 1 \<le> c \<and> c \<le> 5
         then (cells g (r, c))\<lparr>cvalue := None\<rparr>
         else cells g (r, c)))"
proof -
  have u: "[Suc 0..<2] = [1]" by (simp add: upt_rec)
  show ?thesis
    using assms
    by (simp add: fill_work_experience_def Let_def fill_work_rows_eq bind_exc_def u
          clear_row_cells)
qed

lemma fill_experience_empty:
  "work_experience data = [] \<Longrightarrow> fill_work_experience g data = Inr g"
  "project_experience data = [] \<Longrightarrow> fill_project_experience g data = Inr g"
  by (simp_all add: fill_work_experience_def fill_project_experience_def)

lemma sample_job_values:
  "work_row_values sample_job =
     [[50, 48, 50, 48, 45, 48, 49, 45, 48, 49], [50, 48, 50, 49, 45, 48, 51, 45, 48, 53],
      [65, 67, 77, 69], [68, 101, 118], no_token]"
proof -
  have 1: "normalized (Some [50, 48, 50, 48, 45, 48, 49]) = Some [50, 48, 50, 48, 45, 48, 49, 45, 48, 49]"
    by (simp add: normalized_def format_date_def strip_def is_space_def is_digit_def digit_ranges_def)
  have 2: "normalized (Some [50, 48, 50, 49, 45, 48, 51, 45, 48, 53]) = Some [50, 48, 50, 49, 45, 48, 51, 45, 48, 53]"
    by (simp add: normalized_def format_date_def strip_def is_space_def is_digit_def digit_ranges_def)
  show ?thesis
    by (simp add: work_row_values_def sample_job_def 1 2 or_placeholder_def bool_token_def)
qed

lemma sample_project_values:
  "project_row_values sample_project =
     [[50, 48, 50, 48, 45, 48, 49, 45, 48, 49], [50, 48, 50, 49, 45, 48, 51, 45, 48, 53],
      [80, 49], [100, 101, 115, 99], [68, 101, 118], yes_token]"
proof -
  have 1: "normalized (Some [50, 48, 50, 48, 45, 48, 49]) = Some [50, 48, 50, 48, 45, 48, 49, 45, 48, 49]"
    by (simp add: normalized_def format_date_def strip_def is_space_def is_digit_def digit_ranges_def)
  have 2: "normalized (Some [50, 48, 50, 49, 45, 48, 51, 45, 48, 53]) = Some [50, 48, 50, 49, 45, 48, 51, 45, 48, 53]"
    by (simp add: normalized_def format_date_def strip_def is_space_def is_digit_def digit_ranges_def)
  show ?thesis
    by (simp add: project_row_values_def sample_project_def 1 2 or_placeholder_def bool_token_def)
qed

lemma sample_template_fields [simp]:
  "row_offset sample_template = 0"
  "get_actual_row sample_template n = n"
  "merged_cells sample_template =
        [\<lparr>min_row = 31, min_col = 1, max_row = 31, max_col = 6\<rparr>,
         \<lparr>min_row = 32, min_col = 5, max_row = 32, max_col = 6\<rparr>,
         \<lparr>min_row = 36, min_col = 1, max_row = 36, max_col = 6\<rparr>,
         \<lparr>min_row = 41, min_col = 1, max_row = 41, max_col = 6\<rparr>]"
  by (simp_all add: sample_template_def get_actual_row_def)

section \<open>The field writer and the row writers\<close>

text \<open>
  Claim C5, as the code has it. The single-cell field writer stores the placeholder
  token and applies the highlight fill and font when the value is absent, the empty
  text or the empty list. For a present, non-empty value (for a date field: a text
  that is not blank) it leaves the style of the cell as it was. A date field whose text
  is blank is normalized to the absent value and gets the placeholder and the highlight.
  The end-date cell of a work row whose \<^verbatim>\<open>end_date\<close> is absent holds the placeholder
  with the highlight.
\<close>

theorem fill_cell_placeholder_policy:
  fixes g :: generator and row col :: nat and ao isd :: bool
  defines "ar \<equiv> (if ao then get_actual_row g row else row)"
  shows
  "(v = PNone \<or> v = PStr [] \<or> v = PList [] \<longrightarrow>
      (\<exists>g'. fill_cell g row col v ao isd = Inr g' \<and>
            cvalue (cells g' (ar, col)) = Some placeholder \<and>
            fill (cstyle (cells g' (ar, col))) = HIGHLIGHT_FILL \<and>
            font (cstyle (cells g' (ar, col))) = HIGHLIGHT_FONT)) \<and>
   (v \<noteq> PNone \<and> v \<noteq> PStr [] \<and> v \<noteq> PList [] \<and> (isd \<longrightarrow> (\<exists>s. v = PStr s \<and> \<not> blank s)) \<longrightarrow>
      (\<exists>g'. fill_cell g row col v ao isd = Inr g' \<and>
            cstyle (cells g' (ar, col)) = cstyle (cells g (ar, col)))) \<and>
   (blank s \<longrightarrow>
      (\<exists>g'. fill_cell g row col (PStr s) ao True = Inr g' \<and>
            cvalue (cells g' (ar, col)) = Some placeholder \<and>
            fill (cstyle (cells g' (ar, col))) = HIGHLIGHT_FILL \<and>
            font (cstyle (cells g' (ar, col))) = HIGHLIGHT_FONT)) \<and>
   (\<exists>g'. fill_work_row g row (exp\<lparr>end_date := None\<rparr>) = Inr g' \<and>
         cvalue (cells g' (row, 2)) = Some placeholder \<and>
         fill (cstyle (cells g' (row, 2))) = HIGHLIGHT_FILL \<and>
         font (cstyle (cells g' (row, 2))) = HIGHLIGHT_FONT)"
proof (intro conjI impI)
  assume "v = PNone \<or> v = PStr [] \<or> v = PList []"
  from fill_cell_absent[OF this, of g row col ao isd]
  show "\<exists>g'. fill_cell g row col v ao isd = Inr g' \<and>
            cvalue (cells g' (ar, col)) = Some placeholder \<and>
            fill (cstyle (cells g' (ar, col))) = HIGHLIGHT_FILL \<and>
            font (cstyle (cells g' (ar, col))) = HIGHLIGHT_FONT"
    by (simp add: ar_def highlighted_def)
next
  assume a: "v \<noteq> PNone \<and> v \<noteq> PStr [] \<and> v \<noteq> PList [] \<and> (isd \<longrightarrow> (\<exists>s. v = PStr s \<and> \<not> blank s))"
  show "\<exists>g'. fill_cell g row col v ao isd = Inr g' \<and>
            cstyle (cells g' (ar, col)) = cstyle (cells g (ar, col))"
  proof (cases isd)
    case True
    with a obtain t where t: "v = PStr t" "\<not> blank t" by blast
    from normalized_nonblank[OF t(2)] obtain d where "normalized (Some t) = Some d" "d \<noteq> []" by blast
    then show ?thesis using True t fill_cell_date[OF t(2), of g row col ao]
      by (simp add: ar_def)
  next
    case False
    show ?thesis
    proof (cases v)
      case PNone
      then show ?thesis using a by simp
    next
      case (PStr t)
      then show ?thesis using a False fill_cell_text[of t g row col ao] by (simp add: ar_def)
    next
      case (PBool b)
      then show ?thesis using False fill_cell_bool[of g row col b ao]
        by (simp add: ar_def yes_token_def no_token_def)
    next
      case (PList xs)
      then have ne: "xs \<noteq> []" using a by simp
      show ?thesis using PList False fill_cell_list[OF ne, of g row col ao] by (simp add: ar_def)
    qed
  qed
next
  assume "blank s"
  from fill_cell_date_blank[OF this, of g row col ao]
  show "\<exists>g'. fill_cell g row col (PStr s) ao True = Inr g' \<and>
            cvalue (cells g' (ar, col)) = Some placeholder \<and>
            fill (cstyle (cells g' (ar, col))) = HIGHLIGHT_FILL \<and>
            font (cstyle (cells g' (ar, col))) = HIGHLIGHT_FONT"
    by (simp add: ar_def highlighted_def)
next
  show "\<exists>g'. fill_work_row g row (exp\<lparr>end_date := None\<rparr>) = Inr g' \<and>
         cvalue (cells g' (row, 2)) = Some placeholder \<and>
         fill (cstyle (cells g' (row, 2))) = HIGHLIGHT_FILL \<and>
         font (cstyle (cells g' (row, 2))) = HIGHLIGHT_FONT"
    by (simp add: fill_work_row_eq written_def work_row_values_def or_placeholder_def highlighted_def)
qed

text \<open>
  Witness for C5 on the blank sheet: an absent value, the text \<^verbatim>\<open>"A"\<close>, and the date
  text of one space.
\<close>

theorem fill_cell_placeholder_policy_witness:
  "(\<exists>g'. fill_cell blank_sheet 5 2 PNone True False = Inr g' \<and>
         cvalue (cells g' (5, 2)) = Some placeholder \<and>
         fill (cstyle (cells g' (5, 2))) = HIGHLIGHT_FILL \<and>
         font (cstyle (cells g' (5, 2))) = HIGHLIGHT_FONT) \<and>
   (\<exists>g'. fill_cell blank_sheet 5 2 (PStr [65]) True False = Inr g' \<and>
         cstyle (cells g' (5, 2)) = cstyle (cells blank_sheet (5, 2))) \<and>
   (\<exists>g'. fill_cell blank_sheet 7 2 (PStr [32]) True True = Inr g' \<and>
         cvalue (cells g' (7, 2)) = Some placeholder \<and>
         fill (cstyle (cells g' (7, 2))) = HIGHLIGHT_FILL \<and>
         font (cstyle (cells g' (7, 2))) = HIGHLIGHT_FONT)"
proof -
  have b: "blank [32]" by (simp add: blank_def is_space_def)
  have r: "get_actual_row blank_sheet 5 = 5" "get_actual_row blank_sheet 7 = 7"
    by (simp_all add: get_actual_row_def blank_sheet_def)
  from fill_cell_placeholder_policy
         [where v = PNone and g = blank_sheet and row = 5 and col = 2 and ao = True
            and isd = False and s = "[32]"]
  have 1: "\<exists>g'. fill_cell blank_sheet 5 2 PNone True False = Inr g' \<and>
         cvalue (cells g' (5, 2)) = Some placeholder \<and>
         fill (cstyle (cells g' (5, 2))) = HIGHLIGHT_FILL \<and>
         font (cstyle (cells g' (5, 2))) = HIGHLIGHT_FONT"
    by (simp add: r)
  from fill_cell_placeholder_policy
         [where v = "PStr [65]" and g = blank_sheet and row = 5 and col = 2 and ao = True
            and isd = False and s = "[32]"]
  have 2: "\<exists>g'. fill_cell blank_sheet 5 2 (PStr [65]) True False = Inr g' \<and>
         cstyle (cells g' (5, 2)) = cstyle (cells blank_sheet (5, 2))"
    by (simp add: r)
  from fill_cell_placeholder_policy
         [where v = PNone and g = blank_sheet and row = 7 and col = 2 and ao = True
            and isd = True and s = "[32]"] b
  have 3: "\<exists>g'. fill_cell blank_sheet 7 2 (PStr [32]) True True = Inr g' \<and>
         cvalue (cells g' (7, 2)) = Some placeholder \<and>
         fill (cstyle (cells g' (7, 2))) = HIGHLIGHT_FILL \<and>
         font (cstyle (cells g' (7, 2))) = HIGHLIGHT_FONT"
    by (simp add: r)
  from 1 2 3 show ?thesis by blast
qed

text \<open>
  Counterexample to C5 as stated: the birth-date value of one space is present and is
  not the empty text, and the field writer stores the placeholder and applies the
  highlight fill, which the cell did not have.
\<close>

theorem blank_date_highlighted_counterexample:
  "PStr [32] \<noteq> PNone \<and> PStr [32] \<noteq> PStr [] \<and> PStr [32] \<noteq> PList [] \<and>
   fill_cell blank_sheet 7 2 (PStr [32]) True True =
     Inr (highlight (set_value blank_sheet 7 2 (Some placeholder)) 7 2) \<and>
   fill (cstyle (cells (highlight (set_value blank_sheet 7 2 (Some placeholder)) 7 2) (7, 2)))
     = HIGHLIGHT_FILL \<and>
   fill (cstyle (cells blank_sheet (7, 2))) \<noteq> HIGHLIGHT_FILL"
proof -
  have b: "blank [32]" by (simp add: blank_def is_space_def)
  have r: "get_actual_row blank_sheet 7 = 7"
    by (simp add: get_actual_row_def blank_sheet_def)
  from fill_cell_date_blank[OF b, of blank_sheet 7 2 True] r
  have "fill_cell blank_sheet 7 2 (PStr [32]) True True =
     Inr (highlight (set_value blank_sheet 7 2 (Some placeholder)) 7 2)" by simp
  then show ?thesis
    by (simp add: highlighted_def) (simp add: blank_sheet_def empty_cell_def default_style_def)
qed

text \<open>
  Claim C10. The field writer renders the boolean \<open>False\<close> as the no-token and \<open>True\<close>
  as the yes-token and leaves the style of the cell as it was; the work row writer does
  so in column 5 and the project row writer in column 6, for a present boolean of
  either value; the two tokens differ from the placeholder token.
\<close>

theorem boolean_tokens:
  fixes g :: generator and row col :: nat and ao :: bool
  defines "ar \<equiv> (if ao then get_actual_row g row else row)"
  shows
  "(\<exists>g'. fill_cell g row col (PBool b) ao False = Inr g' \<and>
         cvalue (cells g' (ar, col)) = Some (if b then yes_token else no_token) \<and>
         cstyle (cells g' (ar, col)) = cstyle (cells g (ar, col))) \<and>
   (\<exists>g'. fill_work_row g row (w\<lparr>is_psbc_independent_dev := Some b\<rparr>) = Inr g' \<and>
         cvalue (cells g' (row, 5)) = Some (if b then yes_token else no_token) \<and>
         cstyle (cells g' (row, 5)) = cstyle (cells g (row, 5))) \<and>
   (\<exists>g'. fill_project_row g row (p\<lparr>p_is_psbc_independent_dev := Some b\<rparr>) = Inr g' \<and>
         cvalue (cells g' (row, 6)) = Some (if b then yes_token else no_token) \<and>
         cstyle (cells g' (row, 6)) = cstyle (cells g (row, 6))) \<and>
   yes_token \<noteq> placeholder \<and> no_token \<noteq> placeholder"
proof (intro conjI)
  show "\<exists>g'. fill_cell g row col (PBool b) ao False = Inr g' \<and>
         cvalue (cells g' (ar, col)) = Some (if b then yes_token else no_token) \<and>
         cstyle (cells g' (ar, col)) = cstyle (cells g (ar, col))"
    by (simp add: fill_cell_bool ar_def)
  show "\<exists>g'. fill_work_row g row (w\<lparr>is_psbc_independent_dev := Some b\<rparr>) = Inr g' \<and>
         cvalue (cells g' (row, 5)) = Some (if b then yes_token else no_token) \<and>
         cstyle (cells g' (row, 5)) = cstyle (cells g (row, 5))"
    by (simp add: fill_work_row_eq written_def work_row_values_def bool_token_def
          tokens_not_placeholder)
  show "\<exists>g'. fill_project_row g row (p\<lparr>p_is_psbc_independent_dev := Some b\<rparr>) = Inr g' \<and>
         cvalue (cells g' (row, 6)) = Some (if b then yes_token else no_token) \<and>
         cstyle (cells g' (row, 6)) = cstyle (cells g (row, 6))"
    by (simp add: fill_project_row_eq written_def project_row_values_def bool_token_def
          tokens_not_placeholder)
qed (rule tokens_not_placeholder)+

text \<open>Witness for C10: the boolean \<open>False\<close> in the three writers, on the blank sheet.\<close>

theorem boolean_tokens_witness:
  "(\<exists>g'. fill_cell blank_sheet 5 2 (PBool False) True False = Inr g' \<and>
         cvalue (cells g' (5, 2)) = Some no_token \<and>
         cstyle (cells g' (5, 2)) = cstyle (cells blank_sheet (5, 2))) \<and>
   (\<exists>g'. fill_work_row blank_sheet 33 sample_job = Inr g' \<and>
         cvalue (cells g' (33, 5)) = Some no_token \<and>
         cstyle (cells g' (33, 5)) = cstyle (cells blank_sheet (33, 5))) \<and>
   (\<exists>g'. fill_project_row blank_sheet 38
           (sample_project\<lparr>p_is_psbc_independent_dev := Some False\<rparr>) = Inr g' \<and>
         cvalue (cells g' (38, 6)) = Some no_token \<and>
         cstyle (cells g' (38, 6)) = cstyle (cells blank_sheet (38, 6)))"
proof -
  have r: "get_actual_row blank_sheet 5 = 5"
    by (simp add: get_actual_row_def blank_sheet_def)
  have j: "sample_job\<lparr>is_psbc_independent_dev := Some False\<rparr> = sample_job"
    by (simp add: sample_job_def)
  from boolean_tokens
         [where g = blank_sheet and row = 5 and col = 2 and ao = True and b = False]
  have 1: "\<exists>g'. fill_cell blank_sheet 5 2 (PBool False) True False = Inr g' \<and>
         cvalue (cells g' (5, 2)) = Some no_token \<and>
         cstyle (cells g' (5, 2)) = cstyle (cells blank_sheet (5, 2))"
    by (simp add: r)
  from boolean_tokens
         [where g = blank_sheet and row = 33 and b = False and w = sample_job] j
  have 2: "\<exists>g'. fill_work_row blank_sheet 33 sample_job = Inr g' \<and>
         cvalue (cells g' (33, 5)) = Some no_token \<and>
         cstyle (cells g' (33, 5)) = cstyle (cells blank_sheet (33, 5))"
    by simp
  from boolean_tokens
         [where g = blank_sheet and row = 38 and b = False and p = sample_project]
  have 3: "\<exists>g'. fill_project_row blank_sheet 38
           (sample_project\<lparr>p_is_psbc_independent_dev := Some False\<rparr>) = Inr g' \<and>
         cvalue (cells g' (38, 6)) = Some no_token \<and>
         cstyle (cells g' (38, 6)) = cstyle (cells blank_sheet (38, 6))"
    by simp
  from 1 2 3 show ?thesis by blast
qed

section \<open>Classification of the education entries\<close>



section \<open>The error key\<close>



section \<open>The repeating sections\<close>

text \<open>
  Claim C2, as the code has it. When a repeating section has \<open>N > 2\<close> entries and its
  data rows start at the resolved row \<open>R\<close>, the filler inserts \<open>N - 2\<close> rows at row
  \<open>R + 2\<close>: every row from there on is found \<open>N - 2\<close> rows lower and the rows above
  keep their place. Each inserted row gets, in the columns 1 to 15, the style of the row
  \<open>R\<close> (the first example row), on which the highlight is applied where the
  placeholder is written. The offset grows by \<open>N - 2\<close> before the filler returns, and
  all \<open>N\<close> rows hold the texts of their entries: five columns in the work section, six
  in the project section.
\<close>

theorem repeating_section_grows:
  fixes g :: generator and data :: resume_data
  defines "Rw \<equiv> get_actual_row g 33" and "Nw \<equiv> length (work_experience data)"
    and "Rp \<equiv> get_actual_row g 38" and "Np \<equiv> length (project_experience data)"
  shows
  "(2 < Nw \<longrightarrow>
      (\<exists>g'. fill_work_experience g data = Inr g' \<and>
         row_offset g' = row_offset g + (Nw - 2) \<and>
         (\<forall>r c. r < Rw + 2 \<and> \<not> (Rw \<le> r \<and> 1 \<le> c \<and> c \<le> 5) \<longrightarrow> cells g' (r, c) = cells g (r, c)) \<and>
         (\<forall>r c. Rw + Nw \<le> r \<longrightarrow> cells g' (r, c) = cells g (r - (Nw - 2), c)) \<and>
         (\<forall>r c. Rw + 2 \<le> r \<and> r < Rw + Nw \<and> 1 \<le> c \<and> c \<le> 15 \<longrightarrow>
            cstyle (cells g' (r, c)) =
              (if c \<le> 5 \<and> cvalue (cells g' (r, c)) = Some placeholder
               then highlighted (cstyle (cells g (Rw, c))) else cstyle (cells g (Rw, c)))) \<and>
         (\<forall>i c. i < Nw \<and> 1 \<le> c \<and> c \<le> 5 \<longrightarrow>
            cvalue (cells g' (Rw + i, c)) = Some (work_row_values (work_experience data ! i) ! (c - 1))))) \<and>
   (2 < Np \<longrightarrow>
      (\<exists>g'. fill_project_experience g data = Inr g' \<and>
         row_offset g' = row_offset g + (Np - 2) \<and>
         (\<forall>r c. r < Rp + 2 \<and> \<not> (Rp \<le> r \<and> 1 \<le> c \<and> c \<le> 6) \<longrightarrow> cells g' (r, c) = cells g (r, c)) \<and>
         (\<forall>r c. Rp + Np \<le> r \<longrightarrow> cells g' (r, c) = cells g (r - (Np - 2), c)) \<and>
         (\<forall>r c. Rp + 2 \<le> r \<and> r < Rp + Np \<and> 1 \<le> c \<and> c \<le> 15 \<longrightarrow>
            cstyle (cells g' (r, c)) =
              (if c \<le> 6 \<and> cvalue (cells g' (r, c)) = Some placeholder
               then highlighted (cstyle (cells g (Rp, c))) else cstyle (cells g (Rp, c)))) \<and>
         (\<forall>i c. i < Np \<and> 1 \<le> c \<and> c \<le> 6 \<longrightarrow>
            cvalue (cells g' (Rp + i, c)) =
              Some (project_row_values (project_experience data ! i) ! (c - 1)))))"
proof (intro conjI impI)
  assume a: "2 < Nw"
  then have a': "2 < length (work_experience data)" by (simp add: Nw_def)
  from fill_work_experience_expand[OF a', of g] obtain g' where
    r: "fill_work_experience g data = Inr g'"
    and o: "row_offset g' = row_offset g + (Nw - 2)"
    and c: "\<And>r c. cells g' (r, c) =
        (let base = (if r < Rw + 2 then cells g (r, c)
                     else if r < Rw + Nw then
                       (if 1 \<le> c \<and> c \<le> 15 then empty_cell\<lparr>cstyle := cstyle (cells g (Rw, c))\<rparr>
                        else empty_cell)
                     else cells g (r - (Nw - 2), c))
         in if Rw \<le> r \<and> r < Rw + Nw \<and> 1 \<le> c \<and> c \<le> 5
            then written base (work_row_values (work_experience data ! (r - Rw)) ! (c - 1))
            else base)"
    unfolding Rw_def Nw_def Let_def by blast
  show "\<exists>g'. fill_work_experience g data = Inr g' \<and>
         row_offset g' = row_offset g + (Nw - 2) \<and>
         (\<forall>r c. r < Rw + 2 \<and> \<not> (Rw \<le> r \<and> 1 \<le> c \<and> c \<le> 5) \<longrightarrow> cells g' (r, c) = cells g (r, c)) \<and>
         (\<forall>r c. Rw + Nw \<le> r \<longrightarrow> cells g' (r, c) = cells g (r - (Nw - 2), c)) \<and>
         (\<forall>r c. Rw + 2 \<le> r \<and> r < Rw + Nw \<and> 1 \<le> c \<and> c \<le> 15 \<longrightarrow>
            cstyle (cells g' (r, c)) =
              (if c \<le> 5 \<and> cvalue (cells g' (r, c)) = Some placeholder
               then highlighted (cstyle (cells g (Rw, c))) else cstyle (cells g (Rw, c)))) \<and>
         (\<forall>i c. i < Nw \<and> 1 \<le> c \<and> c \<le> 5 \<longrightarrow>
            cvalue (cells g' (Rw + i, c)) = Some (work_row_values (work_experience data ! i) ! (c - 1)))"
  proof (intro exI[of _ g'] conjI allI impI)
    show "fill_work_experience g data = Inr g'" by (rule r)
    show "row_offset g' = row_offset g + (Nw - 2)" by (rule o)
  next
    fix r c :: nat assume "r < Rw + 2 \<and> \<not> (Rw \<le> r \<and> 1 \<le> c \<and> c \<le> 5)"
    then show "cells g' (r, c) = cells g (r, c)" using a by (auto simp: c Let_def)
  next
    fix r c :: nat assume "Rw + Nw \<le> r"
    then show "cells g' (r, c) = cells g (r - (Nw - 2), c)" using a by (auto simp: c Let_def)
  next
    fix r c :: nat assume "Rw + 2 \<le> r \<and> r < Rw + Nw \<and> 1 \<le> c \<and> c \<le> 15"
    then show "cstyle (cells g' (r, c)) =
              (if c \<le> 5 \<and> cvalue (cells g' (r, c)) = Some placeholder
               then highlighted (cstyle (cells g (Rw, c))) else cstyle (cells g (Rw, c)))"
      by (auto simp: c Let_def written_def empty_cell_def)
  next
    fix i c :: nat assume "i < Nw \<and> 1 \<le> c \<and> c \<le> 5"
    then show "cvalue (cells g' (Rw + i, c)) = Some (work_row_values (work_experience data ! i) ! (c - 1))"
      by (simp add: c Let_def written_def)
  qed
next
  assume a: "2 < Np"
  then have a': "2 < length (project_experience data)" by (simp add: Np_def)
  from fill_project_experience_expand[OF a', of g] obtain g' where
    r: "fill_project_experience g data = Inr g'"
    and o: "row_offset g' = row_offset g + (Np - 2)"
    and c: "\<And>r c. cells g' (r, c) =
        (let base = (if r < Rp + 2 then cells g (r, c)
                     else if r < Rp + Np then
                       (if 1 \<le> c \<and> c \<le> 15 then empty_cell\<lparr>cstyle := cstyle (cells g (Rp, c))\<rparr>
                        else empty_cell)
                     else cells g (r - (Np - 2), c))
         in if Rp \<le> r \<and> r < Rp + Np \<and> 1 \<le> c \<and> c \<le> 6
            then written base (project_row_values (project_experience data ! (r - Rp)) ! (c - 1))
            else base)"
    unfolding Rp_def Np_def Let_def by blast
  show "\<exists>g'. fill_project_experience g data = Inr g' \<and>
         row_offset g' = row_offset g + (Np - 2) \<and>
         (\<forall>r c. r < Rp + 2 \<and> \<not> (Rp \<le> r \<and> 1 \<le> c \<and> c \<le> 6) \<longrightarrow> cells g' (r, c) = cells g (r, c)) \<and>
         (\<forall>r c. Rp + Np \<le> r \<longrightarrow> cells g' (r, c) = cells g (r - (Np - 2), c)) \<and>
         (\<forall>r c. Rp + 2 \<le> r \<and> r < Rp + Np \<and> 1 \<le> c \<and> c \<le> 15 \<longrightarrow>
            cstyle (cells g' (r, c)) =
              (if c \<le> 6 \<and> cvalue (cells g' (r, c)) = Some placeholder
               then highlighted (cstyle (cells g (Rp, c))) else cstyle (cells g (Rp, c)))) \<and>
         (\<forall>i c. i < Np \<and> 1 \<le> c \<and> c \<le> 6 \<longrightarrow>
            cvalue (cells g' (Rp + i, c)) =
              Some (project_row_values (project_experience data ! i) ! (c - 1)))"
  proof (intro exI[of _ g'] conjI allI impI)
    show "fill_project_experience g data = Inr g'" by (rule r)
    show "row_offset g' = row_offset g + (Np - 2)" by (rule o)
  next
    fix r c :: nat assume "r < Rp + 2 \<and> \<not> (Rp \<le> r \<and> 1 \<le> c \<and> c \<le> 6)"
    then show "cells g' (r, c) = cells g (r, c)" using a by (auto simp: c Let_def)
  next
    fix r c :: nat assume "Rp + Np \<le> r"
    then show "cells g' (r, c) = cells g (r - (Np - 2), c)" using a by (auto simp: c Let_def)
  next
    fix r c :: nat assume "Rp + 2 \<le> r \<and> r < Rp + Np \<and> 1 \<le> c \<and> c \<le> 15"
    then show "cstyle (cells g' (r, c)) =
              (if c \<le> 6 \<and> cvalue (cells g' (r, c)) = Some placeholder
               then highlighted (cstyle (cells g (Rp, c))) else cstyle (cells g (Rp, c)))"
      by (auto simp: c Let_def written_def empty_cell_def)
  next
    fix i c :: nat assume "i < Np \<and> 1 \<le> c \<and> c \<le> 6"
    then show "cvalue (cells g' (Rp + i, c)) =
              Some (project_row_values (project_experience data ! i) ! (c - 1))"
      by (simp add: c Let_def written_def)
  qed
qed

text \<open>
  Witness for C2: five work entries on the sample template give three inserted rows
  (35 to 37), an offset of 3 and five populated rows; three projects give one inserted
  row.
\<close>

theorem repeating_section_grows_witness:
  "2 < length (work_experience five_jobs) \<and>
   (\<exists>g'. fill_work_experience sample_template five_jobs = Inr g' \<and>
      row_offset g' = 3 \<and>
      cells g' (38, 2) = cells sample_template (35, 2) \<and>
      cells g' (39, 1) = cells sample_template (36, 1) \<and>
      cstyle (cells g' (35, 2)) = cstyle (cells sample_template (33, 2)) \<and>
      cstyle (cells g' (37, 6)) = cstyle (cells sample_template (33, 6)) \<and>
      cvalue (cells g' (33, 3)) = Some [65, 67, 77, 69] \<and>
      cvalue (cells g' (37, 3)) = Some [65, 67, 77, 69] \<and>
      cvalue (cells g' (37, 5)) = Some no_token) \<and>
   2 < length (project_experience three_projects) \<and>
   (\<exists>g'. fill_project_experience sample_template three_projects = Inr g' \<and>
      row_offset g' = 1 \<and>
      cells g' (41, 1) = cells sample_template (40, 1) \<and>
      cstyle (cells g' (40, 2)) = cstyle (cells sample_template (38, 2)) \<and>
      cvalue (cells g' (40, 6)) = Some yes_token)"
proof -
  have w: "2 < length (work_experience five_jobs)" by (simp add: five_jobs_def)
  have p: "2 < length (project_experience three_projects)" by (simp add: three_projects_def)
  have nw: "length (work_experience five_jobs) = 5" by (simp add: five_jobs_def)
  have np: "length (project_experience three_projects) = 3" by (simp add: three_projects_def)
  have jw: "i < 5 \<Longrightarrow> work_experience five_jobs ! i = sample_job" for i
    by (simp add: five_jobs_def nth_Cons' )
  have jp: "i < 3 \<Longrightarrow> project_experience three_projects ! i = sample_project" for i
    by (simp add: three_projects_def nth_Cons')
  have tp: "no_token \<noteq> placeholder" "yes_token \<noteq> placeholder"
           "[65, 67, 77, 69] \<noteq> placeholder"
           "[50, 48, 50, 48, 45, 48, 49, 45, 48, 49] \<noteq> placeholder"
           "[50, 48, 50, 49, 45, 48, 51, 45, 48, 53] \<noteq> placeholder"
    by (simp_all add: tokens_not_placeholder) (simp_all add: placeholder_def)
  from repeating_section_grows[of five_jobs sample_template] w
  obtain g' where
    1: "fill_work_experience sample_template five_jobs = Inr g'"
    and 2: "row_offset g' = 3"
    and 3: "\<And>r c. 38 \<le> r \<Longrightarrow> cells g' (r, c) = cells sample_template (r - 3, c)"
    and 4: "\<And>r c. 35 \<le> r \<and> r < 38 \<and> 1 \<le> c \<and> c \<le> 15 \<Longrightarrow>
            cstyle (cells g' (r, c)) =
              (if c \<le> 5 \<and> cvalue (cells g' (r, c)) = Some placeholder
               then highlighted (cstyle (cells sample_template (33, c)))
               else cstyle (cells sample_template (33, c)))"
    and 5: "\<And>i c. i < 5 \<and> 1 \<le> c \<and> c \<le> 5 \<Longrightarrow>
            cvalue (cells g' (33 + i, c)) = Some (work_row_values (work_experience five_jobs ! i) ! (c - 1))"
    by (auto simp: nw)
  have a: "cvalue (cells g' (35, 2)) = Some [50, 48, 50, 49, 45, 48, 51, 45, 48, 53]"
    using 5[of 2 2] by (simp add: jw sample_job_values)
  have b: "cvalue (cells g' (33, 3)) = Some [65, 67, 77, 69]"
    using 5[of 0 3] by (simp add: jw sample_job_values)
  have c: "cvalue (cells g' (37, 3)) = Some [65, 67, 77, 69]"
    using 5[of 4 3] by (simp add: jw sample_job_values)
  have d: "cvalue (cells g' (37, 5)) = Some no_token"
    using 5[of 4 5] by (simp add: jw sample_job_values)
  have e: "cstyle (cells g' (35, 2)) = cstyle (cells sample_template (33, 2))"
    using 4[of 35 2] by (simp add: a tp)
  have f: "cstyle (cells g' (37, 6)) = cstyle (cells sample_template (33, 6))"
    using 4[of 37 6] by simp
  have W: "\<exists>g'. fill_work_experience sample_template five_jobs = Inr g' \<and>
      row_offset g' = 3 \<and>
      cells g' (38, 2) = cells sample_template (35, 2) \<and>
      cells g' (39, 1) = cells sample_template (36, 1) \<and>
      cstyle (cells g' (35, 2)) = cstyle (cells sample_template (33, 2)) \<and>
      cstyle (cells g' (37, 6)) = cstyle (cells sample_template (33, 6)) \<and>
      cvalue (cells g' (33, 3)) = Some [65, 67, 77, 69] \<and>
      cvalue (cells g' (37, 3)) = Some [65, 67, 77, 69] \<and>
      cvalue (cells g' (37, 5)) = Some no_token"
    using 1 2 3[of 38 2] 3[of 39 1] b c d e f by simp
  from repeating_section_grows[of three_projects sample_template] p
  obtain h' where
    1: "fill_project_experience sample_template three_projects = Inr h'"
    and 2: "row_offset h' = 1"
    and 3: "\<And>r c. 41 \<le> r \<Longrightarrow> cells h' (r, c) = cells sample_template (r - 1, c)"
    and 4: "\<And>r c. 40 \<le> r \<and> r < 41 \<and> 1 \<le> c \<and> c \<le> 15 \<Longrightarrow>
            cstyle (cells h' (r, c)) =
              (if c \<le> 6 \<and> cvalue (cells h' (r, c)) = Some placeholder
               then highlighted (cstyle (cells sample_template (38, c)))
               else cstyle (cells sample_template (38, c)))"
    and 5: "\<And>i c. i < 3 \<and> 1 \<le> c \<and> c \<le> 6 \<Longrightarrow>
            cvalue (cells h' (38 + i, c)) =
              Some (project_row_values (project_experience three_projects ! i) ! (c - 1))"
    by (auto simp: np)
  have a: "cvalue (cells h' (40, 2)) = Some [50, 48, 50, 49, 45, 48, 51, 45, 48, 53]"
    using 5[of 2 2] by (simp add: jp sample_project_values)
  have b: "cvalue (cells h' (40, 6)) = Some yes_token"
    using 5[of 2 6] by (simp add: jp sample_project_values)
  have e: "cstyle (cells h' (40, 2)) = cstyle (cells sample_template (38, 2))"
    using 4[of 40 2] by (simp add: a tp)
  have P: "\<exists>g'. fill_project_experience sample_template three_projects = Inr g' \<and>
      row_offset g' = 1 \<and>
      cells g' (41, 1) = cells sample_template (40, 1) \<and>
      cstyle (cells g' (40, 2)) = cstyle (cells sample_template (38, 2)) \<and>
      cvalue (cells g' (40, 6)) = Some yes_token"
    using 1 2 3[of 41 1] b e by simp
  from w p W P show ?thesis by blast
qed

text \<open>
  Counterexample to C2 as stated: with three work entries on the sample template
  (\<open>R = 33\<close>, \<open>K = 2\<close>), the inserted row 35 has the style of row 33, which is not
  the style of row 34, the last example row.
\<close>

theorem style_source_counterexample:
  "\<not> isl (fill_work_experience sample_template three_jobs) \<and>
   cstyle (cells (projr (fill_work_experience sample_template three_jobs)) (35, 2)) =
     cstyle (cells sample_template (33, 2)) \<and>
   cstyle (cells (projr (fill_work_experience sample_template three_jobs)) (35, 2)) \<noteq>
     cstyle (cells sample_template (34, 2))"
proof -
  have w: "2 < length (work_experience three_jobs)" by (simp add: three_jobs_def)
  have nw: "length (work_experience three_jobs) = 3" by (simp add: three_jobs_def)
  have j: "work_experience three_jobs ! 2 = sample_job" by (simp add: three_jobs_def)
  from fill_work_experience_expand[OF w, of sample_template] obtain g' where
    1: "fill_work_experience sample_template three_jobs = Inr g'"
    and c: "\<And>r c. cells g' (r, c) =
        (let R = get_actual_row sample_template 33; N = length (work_experience three_jobs);
             base = (if r < R + 2 then cells sample_template (r, c)
                     else if r < R + N then
                       (if 1 \<le> c \<and> c \<le> 15 then empty_cell\<lparr>cstyle := cstyle (cells sample_template (R, c))\<rparr>
                        else empty_cell)
                     else cells sample_template (r - (N - 2), c))
         in if R \<le> r \<and> r < R + N \<and> 1 \<le> c \<and> c \<le> 5
            then written base (work_row_values (work_experience three_jobs ! (r - R)) ! (c - 1))
            else base)"
    by blast
  have tp: "[50, 48, 50, 49, 45, 48, 51, 45, 48, 53] \<noteq> placeholder" by (simp add: placeholder_def)
  have s: "cstyle (cells g' (35, 2)) = cstyle (cells sample_template (33, 2))"
    by (simp add: c nw j sample_job_values written_def tp)
  have d: "cstyle (cells sample_template (33, 2)) \<noteq> cstyle (cells sample_template (34, 2))"
    by (simp add: sample_template_def default_style_def)
  from 1 s d show ?thesis by simp
qed

text \<open>
  Claim C3, as the code has it, for the insertion of the project section: the merge
  rectangles whose first row is above the insertion row \<open>R + 2\<close> are kept as they are,
  each as often as before; the rectangles whose first row is at or below the insertion
  row are unmerged before the rows are inserted and are not in the result.
\<close>

theorem project_insertion_merges:
  assumes "2 < length (project_experience data)"
  shows "\<exists>g'. fill_project_experience g data = Inr g' \<and>
     merged_cells g' = filter (\<lambda>mr. min_row mr < get_actual_row g 38 + 2) (merged_cells g) \<and>
     (\<forall>mr \<in> set (merged_cells g). min_row mr < get_actual_row g 38 + 2 \<longrightarrow>
        mr \<in> set (merged_cells g') \<and>
        count_list (merged_cells g') mr = count_list (merged_cells g) mr) \<and>
     (\<forall>mr \<in> set (merged_cells g'). mr \<in> set (merged_cells g) \<and> min_row mr < get_actual_row g 38 + 2)"
proof -
  from fill_project_experience_expand[OF assms, of g] obtain g' where
    r: "fill_project_experience g data = Inr g'"
    and m: "merged_cells g' = filter (\<lambda>mr. min_row mr < get_actual_row g 38 + 2) (merged_cells g)"
    by blast
  have c: "P mr \<Longrightarrow> count_list (filter P ms) mr = count_list ms mr" for P ms and mr :: rect
    by (induction ms) auto
  show ?thesis
    by (intro exI[of _ g'] conjI r m ballI impI) (auto simp: m c)
qed

text \<open>Witness for C3: three projects on the sample template.\<close>

theorem project_insertion_merges_witness:
  "2 < length (project_experience three_projects) \<and>
   (\<exists>g'. fill_project_experience sample_template three_projects = Inr g' \<and>
      merged_cells g' =
        [\<lparr>min_row = 31, min_col = 1, max_row = 31, max_col = 6\<rparr>,
         \<lparr>min_row = 32, min_col = 5, max_row = 32, max_col = 6\<rparr>,
         \<lparr>min_row = 36, min_col = 1, max_row = 36, max_col = 6\<rparr>])"
proof -
  have p: "2 < length (project_experience three_projects)" by (simp add: three_projects_def)
  from project_insertion_merges[OF p, of sample_template] obtain g' where
    "fill_project_experience sample_template three_projects = Inr g'"
    "merged_cells g' = filter (\<lambda>mr. min_row mr < get_actual_row sample_template 38 + 2)
                         (merged_cells sample_template)"
    by blast
  then show ?thesis using p by simp
qed

text \<open>
  Counterexample to C3 as stated: with three projects on the sample template one row
  is inserted at row 40; the rectangle of the skills title in row 41 is neither found
  one row lower nor kept: the result has three of the four rectangles.
\<close>

theorem merge_lost_counterexample:
  "\<lparr>min_row = 41, min_col = 1, max_row = 41, max_col = 6\<rparr> \<in> set (merged_cells sample_template) \<and>
   \<not> isl (fill_project_experience sample_template three_projects) \<and>
   \<lparr>min_row = 42, min_col = 1, max_row = 42, max_col = 6\<rparr>
     \<notin> set (merged_cells (projr (fill_project_experience sample_template three_projects))) \<and>
   \<lparr>min_row = 41, min_col = 1, max_row = 41, max_col = 6\<rparr>
     \<notin> set (merged_cells (projr (fill_project_experience sample_template three_projects))) \<and>
   length (merged_cells (projr (fill_project_experience sample_template three_projects))) = 3 \<and>
   length (merged_cells sample_template) = 4"
proof -
  have p: "2 < length (project_experience three_projects)" by (simp add: three_projects_def)
  from fill_project_experience_expand[OF p, of sample_template] obtain g' where
    "fill_project_experience sample_template three_projects = Inr g'"
    "merged_cells g' = filter (\<lambda>mr. min_row mr < get_actual_row sample_template 38 + 2)
                         (merged_cells sample_template)"
    by blast
  then show ?thesis by simp
qed

text \<open>
  Claim C4, as the code has it. With one work entry the work filler inserts no row: the
  offset and every cell outside the columns 1 to 5 of the two example rows stay as they
  are, the entry is written to the first example row, and the columns 1 to 5 of the
  second example row have their value cleared and their style unchanged. With no entry
  a filler returns at once and leaves the grid as it is.
\<close>

theorem short_section_blanking:
  fixes g :: generator
  defines "R \<equiv> get_actual_row g 33"
  shows
  "(work_experience data = [w] \<longrightarrow>
      (\<exists>g'. fill_work_experience g data = Inr g' \<and>
         row_offset g' = row_offset g \<and>
         (\<forall>c. 1 \<le> c \<and> c \<le> 5 \<longrightarrow> cells g' (R + 1, c) = (cells g (R + 1, c))\<lparr>cvalue := None\<rparr>) \<and>
         (\<forall>c. 1 \<le> c \<and> c \<le> 5 \<longrightarrow> cvalue (cells g' (R, c)) = Some (work_row_values w ! (c - 1))) \<and>
         (\<forall>r c. \<not> ((r = R \<or> r = R + 1) \<and> 1 \<le> c \<and> c \<le> 5) \<longrightarrow> cells g' (r, c) = cells g (r, c)))) \<and>
   (work_experience data = [] \<longrightarrow> fill_work_experience g data = Inr g) \<and>
   (project_experience data = [] \<longrightarrow> fill_project_experience g data = Inr g)"
proof (intro conjI impI)
  assume a: "work_experience data = [w]"
  from fill_work_experience_single[OF a, of g] obtain g' where
    r: "fill_work_experience g data = Inr g'" and o: "row_offset g' = row_offset g"
    and c: "\<And>r c. cells g' (r, c) =
        (if r = R \<and> 1 \<le> c \<and> c \<le> 5
         then written (cells g (r, c)) (work_row_values w ! (c - 1))
         else if r = R + 1 \<and> 1 \<le> c \<and> c \<le> 5
         then (cells g (r, c))\<lparr>cvalue := None\<rparr>
         else cells g (r, c))"
    unfolding R_def by blast
  show "\<exists>g'. fill_work_experience g data = Inr g' \<and>
         row_offset g' = row_offset g \<and>
         (\<forall>c. 1 \<le> c \<and> c \<le> 5 \<longrightarrow> cells g' (R + 1, c) = (cells g (R + 1, c))\<lparr>cvalue := None\<rparr>) \<and>
         (\<forall>c. 1 \<le> c \<and> c \<le> 5 \<longrightarrow> cvalue (cells g' (R, c)) = Some (work_row_values w ! (c - 1))) \<and>
         (\<forall>r c. \<not> ((r = R \<or> r = R + 1) \<and> 1 \<le> c \<and> c \<le> 5) \<longrightarrow> cells g' (r, c) = cells g (r, c))"
    by (intro exI[of _ g'] conjI r o allI impI) (auto simp: c written_def)
next
  assume "work_experience data = []"
  then show "fill_work_experience g data = Inr g" by (rule fill_experience_empty)
next
  assume "project_experience data = []"
  then show "fill_project_experience g data = Inr g" by (rule fill_experience_empty)
qed

text \<open>Witness for C4: one work entry, and no entry, on the sample template.\<close>

theorem short_section_blanking_witness:
  "work_experience one_job = [sample_job] \<and>
   (\<exists>g'. fill_work_experience sample_template one_job = Inr g' \<and>
      row_offset g' = 0 \<and>
      cells g' (34, 2) = (cells sample_template (34, 2))\<lparr>cvalue := None\<rparr> \<and>
      cvalue (cells g' (33, 3)) = Some [65, 67, 77, 69] \<and>
      cells g' (35, 2) = cells sample_template (35, 2)) \<and>
   work_experience empty_resume = [] \<and> project_experience empty_resume = [] \<and>
   fill_work_experience sample_template empty_resume = Inr sample_template \<and>
   fill_project_experience sample_template empty_resume = Inr sample_template"
proof -
  have a: "work_experience one_job = [sample_job]" by (simp add: one_job_def)
  have e: "work_experience empty_resume = []" "project_experience empty_resume = []"
    by (simp_all add: empty_resume_def)
  from short_section_blanking[of one_job sample_job sample_template] a
  obtain g' where
    1: "fill_work_experience sample_template one_job = Inr g'"
    and 2: "row_offset g' = 0"
    and 3: "\<And>c. 1 \<le> c \<and> c \<le> 5 \<Longrightarrow> cells g' (34, c) = (cells sample_template (34, c))\<lparr>cvalue := None\<rparr>"
    and 4: "\<And>c. 1 \<le> c \<and> c \<le> 5 \<Longrightarrow> cvalue (cells g' (33, c)) = Some (work_row_values sample_job ! (c - 1))"
    and 5: "\<And>r c. \<not> ((r = 33 \<or> r = 34) \<and> 1 \<le> c \<and> c \<le> 5) \<Longrightarrow> cells g' (r, c) = cells sample_template (r, c)"
    by auto
  have W: "\<exists>g'. fill_work_experience sample_template one_job = Inr g' \<and>
      row_offset g' = 0 \<and>
      cells g' (34, 2) = (cells sample_template (34, 2))\<lparr>cvalue := None\<rparr> \<and>
      cvalue (cells g' (33, 3)) = Some [65, 67, 77, 69] \<and>
      cells g' (35, 2) = cells sample_template (35, 2)"
    using 1 2 3[of 2] 4[of 3] 5[of 35 2] by (simp add: sample_job_values)
  from short_section_blanking[of empty_resume w sample_template] e
  have "fill_work_experience sample_template empty_resume = Inr sample_template"
       "fill_project_experience sample_template empty_resume = Inr sample_template"
    by simp_all
  with a e W show ?thesis by blast
qed

text \<open>
  Counterexample to C4 as stated: with no work entry the filler returns the sample
  template unchanged, and its example rows 33 and 34 still hold the example text.
\<close>

theorem example_rows_not_blanked_counterexample:
  "work_experience empty_resume = [] \<and>
   fill_work_experience sample_template empty_resume = Inr sample_template \<and>
   cvalue (cells sample_template (33, 2)) = Some example_text \<and>
   cvalue (cells sample_template (34, 2)) = Some example_text"
proof -
  have e: "work_experience empty_resume = []" by (simp add: empty_resume_def)
  from fill_experience_empty(1)[OF e, of sample_template] e show ?thesis
    by (simp add: sample_template_def)
qed

section \<open>The education section\<close>

lemma filled_update:
  "(if v = None \<or> v = Some [] then highlight (set_value g r c (Some placeholder)) r c
    else set_value g r c v) = g\<lparr>cells := (cells g)((r, c) := filled (cells g (r, c)) v)\<rparr>"
  by (cases v) (auto simp: filled_def intro!: generator.equality cell.equality)

lemma fill_cell_opt:
  "fill_cell g row col (of_opt v) True isd =
     Inr (g\<lparr>cells := (cells g)((row + row_offset g, col) :=
            filled (cells g (row + row_offset g, col)) (if isd then normalized v else v))\<rparr>)"
proof -
  let ?r = "row + row_offset g"
  have hl: "highlight (set_value g ?r col (Some placeholder)) ?r col =
            g\<lparr>cells := (cells g)((?r, col) := filled (cells g (?r, col)) None)\<rparr>"
    using filled_update[of None g ?r col] by simp
  have sv: "s \<noteq> [] \<Longrightarrow> set_value g ?r col (Some s) =
            g\<lparr>cells := (cells g)((?r, col) := filled (cells g (?r, col)) (Some s))\<rparr>" for s
    using filled_update[of "Some s" g ?r col] by simp
  have fe: "filled cl (Some []) = filled cl None" for cl by (simp add: filled_def)
  have ne: "normalized (Some []) = None" by (simp add: normalized_blank blank_def)
  show ?thesis
  proof (cases v)
    case None
    then show ?thesis using fill_cell_absent[of PNone g row col True isd]
      by (simp add: get_actual_row_def hl)
  next
    case (Some s)
    show ?thesis
    proof (cases "s = []")
      case True
      then show ?thesis using Some fill_cell_absent[of "PStr []" g row col True isd]
        by (simp add: get_actual_row_def hl fe ne)
    next
      case False
      show ?thesis
      proof (cases isd)
        case f: False
        then show ?thesis using Some False fill_cell_text[of s g row col True]
          by (simp add: get_actual_row_def sv)
      next
        case t: True
        show ?thesis
        proof (cases "blank s")
          case True
          then show ?thesis using Some t fill_cell_date_blank[of s g row col True]
            by (simp add: get_actual_row_def hl normalized_blank)
        next
          case nb: False
          from normalized_nonblank[OF nb] obtain d where d: "normalized (Some s) = Some d" "d \<noteq> []"
            by blast
          then show ?thesis using Some t fill_cell_date[OF nb, of g row col True]
            by (simp add: get_actual_row_def sv)
        qed
      qed
    qed
  qed
qed

lemma fill_undergraduate_eq:
  assumes "row_offset g = 0"
  shows "fill_undergraduate g edu =
     Inr (g\<lparr>cells := (cells g)
       ((14, 2) := filled (cells g (14, 2)) (normalized (enrollment_date edu)),
        (14, 4) := filled (cells g (14, 4)) (university edu),
        (15, 2) := filled (cells g (15, 2)) (normalized (graduation_date edu)),
        (15, 4) := filled (cells g (15, 4)) (major edu),
        (16, 2) := filled (cells g (16, 2)) (diploma_number edu),
        (17, 2) := filled (cells g (17, 2)) (diploma_verification_code edu),
        (19, 2) := filled (cells g (19, 2)) (degree_number edu),
        (20, 2) := filled (cells g (20, 2)) (degree_verification_code edu))\<rparr>)"
  by (simp add: fill_undergraduate_def fill_cell_opt bind_exc_def assms)

lemma fill_graduate_eq:
  assumes "row_offset g = 0"
  shows "fill_graduate g edu shuoshi =
     Inr (g\<lparr>cells := (cells g)
       ((23, 2) := filled (cells g (23, 2)) (normalized (enrollment_date edu)),
        (23, 4) := filled (cells g (23, 4)) (university edu),
        (24, 2) := filled (cells g (24, 2)) (normalized (graduation_date edu)),
        (24, 4) := filled (cells g (24, 4)) (major edu),
        (25, 2) := filled (cells g (25, 2)) (diploma_number edu),
        (26, 2) := filled (cells g (26, 2)) (diploma_verification_code edu),
        (28, 2) := filled (cells g (28, 2)) (degree_number edu),
        (29, 2) := filled (cells g (29, 2)) (degree_verification_code edu))\<rparr>)"
proof -
  have n: "shuoshi \<noteq> boshi" by (simp add: shuoshi_def boshi_def)
  show ?thesis
    by (simp add: fill_graduate_def Let_def n fill_cell_opt bind_exc_def assms)
qed

lemma fill_cells_data_cells:
  "distinct (map (\<lambda>(r, c, v). (r, c)) xs) \<Longrightarrow>
   cells (fill_cells_data g xs) (r, c) =
     (case map_of (map (\<lambda>(r, c, v). ((r, c), v)) xs) (r, c) of
        None \<Rightarrow> cells g (r, c)
      | Some v \<Rightarrow> filled (cells g (r, c)) v)"
proof (induction xs arbitrary: g)
  case Nil
  then show ?case by simp
next
  case (Cons a xs)
  obtain r' c' v' where a: "a = (r', c', v')" by (cases a)
  from Cons.prems have d: "distinct (map (\<lambda>(r, c, v). (r, c)) xs)"
    and n: "(r', c') \<notin> set (map (\<lambda>(r, c, v). (r, c)) xs)" by (auto simp: a)
  have m: "map_of (map (\<lambda>(r, c, v). ((r, c), v)) xs) (r', c') = None"
    using n by (force simp: map_of_eq_None_iff image_iff)
  show ?case unfolding a fill_cells_data.simps filled_update Cons.IH[OF d]
    using m by (auto split: option.splits)
qed

lemma fill_cells_data_other [simp]:
  "merged_cells (fill_cells_data g xs) = merged_cells g"
  "row_offset (fill_cells_data g xs) = row_offset g"
proof -
  have "merged_cells (fill_cells_data g xs) = merged_cells g \<and>
        row_offset (fill_cells_data g xs) = row_offset g"
  proof (induction xs arbitrary: g)
    case Nil
    then show ?case by simp
  next
    case (Cons a xs)
    obtain r' c' v' where a: "a = (r', c', v')" by (cases a)
    show ?case by (simp add: a filled_update Cons.IH)
  qed
  then show "merged_cells (fill_cells_data g xs) = merged_cells g"
    "row_offset (fill_cells_data g xs) = row_offset g" by simp_all
qed

lemma cvalue_filled: "cvalue (filled cl v) = Some (or_placeholder v)"
  by (cases v) (auto simp: filled_def or_placeholder_def)

lemma insert_doctoral_section_unfold:
  assumes "row_offset g = 0"
  shows "insert_doctoral_section g edu =
    Inr (fill_cells_data
      (set_values
        (merge_cells
          (foldl (\<lambda>g' i. copy_row_style g' (22 + i) (31 + i) 15)
            (set_values
              (merge_cells
                (unmerge_all ((insert_rows g 31 9)\<lparr>row_offset := 9\<rparr>)
                   (filter (\<lambda>mr. min_row mr = 41 \<and> min_col mr = 1 \<and> 3 \<le> max_col mr)
                      (map (shift_rect 31 9) (merged_cells g))))
                \<lparr>min_row = 41, min_col = 5, max_row = 41, max_col = 6\<rparr>)
              [(41, 1, work_header_labels ! 0),
               (41, 2, work_header_labels ! 1),
               (41, 3, work_header_labels ! 2),
               (41, 4, work_header_labels ! 3),
               (41, 5, work_header_labels ! 4)])
            [0..<9])
          \<lparr>min_row = 31, min_col = 1, max_row = 31, max_col = 6\<rparr>)
        [(31, 1, boshi_xueli),
         (32, 1, label_enrollment),
         (32, 3, label_university),
         (33, 1, label_graduation),
         (33, 3, label_major),
         (34, 1, label_diploma_number),
         (35, 1, label_diploma_code),
         (37, 1, label_degree_number),
         (38, 1, label_degree_code)])
      [(32, 2, normalized (enrollment_date edu)),
       (32, 4, university edu),
       (33, 2, normalized (graduation_date edu)),
       (33, 4, major edu),
       (34, 2, diploma_number edu),
       (35, 2, diploma_verification_code edu),
       (37, 2, degree_number edu),
       (38, 2, degree_verification_code edu)])"
  unfolding insert_doctoral_section_def Let_def get_actual_row_def assms
  by (simp add: format_date_normalized bind_exc_def assms
        del: fill_cells_data.simps set_values.simps foldl.simps upt.simps
        split del: if_split)

lemma insert_doctoral_section_facts:
  assumes "row_offset g = 0"
  obtains g' where
     "insert_doctoral_section g edu = Inr g'"
     "row_offset g' = 9"
     "\<lparr>min_row = 41, min_col = 5, max_row = 41, max_col = 6\<rparr> \<in> set (merged_cells g')"
     "\<lparr>min_row = 31, min_col = 1, max_row = 31, max_col = 6\<rparr> \<in> set (merged_cells g')"
     "merged_cells g' =
        (let ms1 = filter (\<lambda>mr. \<not> (min_row mr = 41 \<and> min_col mr = 1 \<and> 3 \<le> max_col mr))
                     (map (shift_rect 31 9) (merged_cells g));
             ms2 = (if \<lparr>min_row = 41, min_col = 5, max_row = 41, max_col = 6\<rparr> \<in> set ms1 then ms1
                    else ms1 @ [\<lparr>min_row = 41, min_col = 5, max_row = 41, max_col = 6\<rparr>])
         in if \<lparr>min_row = 31, min_col = 1, max_row = 31, max_col = 6\<rparr> \<in> set ms2 then ms2
            else ms2 @ [\<lparr>min_row = 31, min_col = 1, max_row = 31, max_col = 6\<rparr>])"
     "\<And>r c. r < 31 \<Longrightarrow> cells g' (r, c) = cells g (r, c)"
     "\<And>r c. 40 \<le> r \<and> \<not> (r = 41 \<and> 1 \<le> c \<and> c \<le> 5) \<Longrightarrow> cells g' (r, c) = cells g (r - 9, c)"
     "\<And>c. 1 \<le> c \<and> c \<le> 5 \<Longrightarrow>
        cells g' (41, c) = (cells g (32, c))\<lparr>cvalue := Some (work_header_labels ! (c - 1))\<rparr>"
     "\<And>r c. 31 \<le> r \<and> r < 40 \<and> 1 \<le> c \<and> c \<le> 15 \<and> c \<noteq> 2 \<and> c \<noteq> 4 \<Longrightarrow>
        cstyle (cells g' (r, c)) = cstyle (cells g (r - 9, c))"
     "cvalue (cells g' (31, 1)) = Some boshi_xueli"
     "cvalue (cells g' (32, 2)) = Some (or_placeholder (normalized (enrollment_date edu)))"
     "cvalue (cells g' (32, 4)) = Some (or_placeholder (university edu))"
     "cvalue (cells g' (33, 2)) = Some (or_placeholder (normalized (graduation_date edu)))"
     "cvalue (cells g' (33, 4)) = Some (or_placeholder (major edu))"
     "cvalue (cells g' (34, 2)) = Some (or_placeholder (diploma_number edu))"
     "cvalue (cells g' (35, 2)) = Some (or_placeholder (diploma_verification_code edu))"
     "cvalue (cells g' (37, 2)) = Some (or_placeholder (degree_number edu))"
     "cvalue (cells g' (38, 2)) = Some (or_placeholder (degree_verification_code edu))"
proof -
  define hdr where "hdr = \<lparr>min_row = 41, min_col = 5, max_row = 41, max_col = (6::nat)\<rparr>"
  define title where "title = \<lparr>min_row = 31, min_col = 1, max_row = 31, max_col = (6::nat)\<rparr>"
  define g3 where "g3 = unmerge_all ((insert_rows g 31 9)\<lparr>row_offset := 9\<rparr>)
      (filter (\<lambda>mr. min_row mr = 41 \<and> min_col mr = 1 \<and> 3 \<le> max_col mr)
         (map (shift_rect 31 9) (merged_cells g)))"
  define hs where "hs = [(41::nat, 1::nat, work_header_labels ! 0),
               (41, 2, work_header_labels ! 1),
               (41, 3, work_header_labels ! 2),
               (41, 4, work_header_labels ! 3),
               (41, 5, work_header_labels ! 4)]"
  define g5 where "g5 = set_values (merge_cells g3 hdr) hs"
  define g6 where "g6 = foldl (\<lambda>g' i. copy_row_style g' (22 + i) (31 + i) 15) g5 [0..<9]"
  define ls where "ls = [(31::nat, 1::nat, boshi_xueli),
         (32, 1, label_enrollment),
         (32, 3, label_university),
         (33, 1, label_graduation),
         (33, 3, label_major),
         (34, 1, label_diploma_number),
         (35, 1, label_diploma_code),
         (37, 1, label_degree_number),
         (38, 1, label_degree_code)]"
  define g8 where "g8 = set_values (merge_cells g6 title) ls"
  define ds where "ds = [(32::nat, 2::nat, normalized (enrollment_date edu)),
       (32, 4, university edu),
       (33, 2, normalized (graduation_date edu)),
       (33, 4, major edu),
       (34, 2, diploma_number edu),
       (35, 2, diploma_verification_code edu),
       (37, 2, degree_number edu),
       (38, 2, degree_verification_code edu)]"
  define G where "G = fill_cells_data g8 ds"
  have res: "insert_doctoral_section g edu = Inr G"
    unfolding G_def ds_def g8_def ls_def g6_def g5_def hs_def g3_def hdr_def title_def
    by (rule insert_doctoral_section_unfold[OF assms])
  have dh: "distinct (map (\<lambda>(r, c, v). (r, c)) hs)" by (simp add: hs_def)
  have dl: "distinct (map (\<lambda>(r, c, v). (r, c)) ls)" by (simp add: ls_def)
  have dd: "distinct (map (\<lambda>(r, c, v). (r, c)) ds)" by (simp add: ds_def)
  have c3: "cells g3 (r, c) =
     (if r < 31 then cells g (r, c) else if r < 40 then empty_cell else cells g (r - 9, c))" for r c
    by (simp add: g3_def)
  have c5: "cells g5 (r, c) =
     (case map_of (map (\<lambda>(r, c, v). ((r, c), v)) hs) (r, c) of
        None \<Rightarrow> cells g3 (r, c)
      | Some v \<Rightarrow> (cells g3 (r, c))\<lparr>cvalue := Some v\<rparr>)" for r c
    unfolding g5_def by (simp add: set_values_cells[OF dh] cong: option.case_cong)
  have src: "\<forall>i<9. 22 + i < (31::nat)" by simp
  have c6: "cells g6 (r, c) =
       (if 31 \<le> r \<and> r < 31 + 9 \<and> 1 \<le> c \<and> c \<le> 15 \<and> has_style (cells g5 (22 + (r - 31), c))
        then (cells g5 (r, c))\<lparr>cstyle := cstyle (cells g5 (22 + (r - 31), c))\<rparr>
        else cells g5 (r, c))" for r c
    unfolding g6_def by (rule copy_block_cells[OF src])
  have c8: "cells g8 (r, c) =
     (case map_of (map (\<lambda>(r, c, v). ((r, c), v)) ls) (r, c) of
        None \<Rightarrow> cells g6 (r, c)
      | Some v \<Rightarrow> (cells g6 (r, c))\<lparr>cvalue := Some v\<rparr>)" for r c
    unfolding g8_def by (simp add: set_values_cells[OF dl] cong: option.case_cong)
  have cG: "cells G (r, c) =
     (case map_of (map (\<lambda>(r, c, v). ((r, c), v)) ds) (r, c) of
        None \<Rightarrow> cells g8 (r, c)
      | Some v \<Rightarrow> filled (cells g8 (r, c)) v)" for r c
    unfolding G_def by (rule fill_cells_data_cells[OF dd])
  have oG: "row_offset G = 9"
    by (simp add: G_def g8_def g6_def g5_def g3_def set_values_other)
  have m6: "merged_cells g6 = merged_cells (merge_cells g3 hdr)"
    by (simp add: g6_def g5_def set_values_other)
  have m5: "hdr \<in> set (merged_cells g6)" unfolding m6 by simp
  have m3: "merged_cells g3 =
      filter (\<lambda>mr. \<not> (min_row mr = 41 \<and> min_col mr = 1 \<and> 3 \<le> max_col mr))
        (map (shift_rect 31 9) (merged_cells g))"
  proof -
    have "merged_cells ((insert_rows g 31 9)\<lparr>row_offset := 9\<rparr>) =
          map (shift_rect 31 9) (merged_cells g)" by simp
    then show ?thesis
      unfolding g3_def by (simp only: unmerge_all_simps filter_not_in_filter)
  qed
  have mG: "merged_cells G =
        (let ms1 = filter (\<lambda>mr. \<not> (min_row mr = 41 \<and> min_col mr = 1 \<and> 3 \<le> max_col mr))
                     (map (shift_rect 31 9) (merged_cells g));
             ms2 = (if hdr \<in> set ms1 then ms1 else ms1 @ [hdr])
         in if title \<in> set ms2 then ms2 else ms2 @ [title])"
  proof -
    have "merged_cells G = merged_cells (merge_cells g6 title)"
      by (simp add: G_def g8_def set_values_other del: merge_cells_simps)
    also have "\<dots> = (if title \<in> set (merged_cells g6) then merged_cells g6
                       else merged_cells g6 @ [title])" by simp
    also have "merged_cells g6 = (if hdr \<in> set (merged_cells g3) then merged_cells g3
                       else merged_cells g3 @ [hdr])" unfolding m6 by simp
    finally show ?thesis unfolding m3 Let_def .
  qed
  have m1: "hdr \<in> set (merged_cells G)" "title \<in> set (merged_cells G)"
    using m5 by (simp_all add: G_def g8_def set_values_other)
  text \<open>rows above the block\<close>
  have above: "cells G (r, c) = cells g (r, c)" if "r < 31" for r c
    using that by (simp add: cG c8 c6 c5 c3 ds_def ls_def hs_def)
  have below: "cells G (r, c) = cells g (r - 9, c)"
    if "40 \<le> r \<and> \<not> (r = 41 \<and> 1 \<le> c \<and> c \<le> 5)" for r c
    using that by (auto simp: cG c8 c6 c5 c3 ds_def ls_def hs_def)
  have header: "cells G (41, c) = (cells g (32, c))\<lparr>cvalue := Some (work_header_labels ! (c - 1))\<rparr>"
    if "1 \<le> c \<and> c \<le> 5" for c
  proof -
    from that consider "c = 1" | "c = 2" | "c = 3" | "c = 4" | "c = 5" by arith
    then show ?thesis
      by cases (simp_all add: cG c8 c6 c5 c3 ds_def ls_def hs_def)
  qed
  have style: "cstyle (cells G (r, c)) = cstyle (cells g (r - 9, c))"
    if "31 \<le> r \<and> r < 40 \<and> 1 \<le> c \<and> c \<le> 15 \<and> c \<noteq> 2 \<and> c \<noteq> 4" for r c
  proof -
    from that have r: "31 \<le> r" "r < 40" and c: "1 \<le> c" "c \<le> 15" "c \<noteq> 2" "c \<noteq> 4" by auto
    have e: "22 + (r - 31) = r - 9" using r by arith
    have 1: "map_of (map (\<lambda>(r, c, v). ((r, c), v)) ds) (r, c) = None"
      using c by (simp add: ds_def)
    have 5: "cells g5 (r, c) = empty_cell" using r by (simp add: c5 c3 hs_def)
    have s5: "cells g5 (r - 9, c) = cells g (r - 9, c)" using r by (simp add: c5 c3 hs_def)
    have 6: "cstyle (cells g6 (r, c)) = cstyle (cells g (r - 9, c))"
      using r c by (simp add: c6 e 5 s5 has_style_def empty_cell_def)
    have 8: "cstyle (cells g8 (r, c)) = cstyle (cells g6 (r, c))"
      by (simp add: c8 split: option.splits)
    show ?thesis by (simp add: cG 1 8 6)
  qed
  have vals:
     "cvalue (cells G (31, 1)) = Some boshi_xueli"
     "cvalue (cells G (32, 2)) = Some (or_placeholder (normalized (enrollment_date edu)))"
     "cvalue (cells G (32, 4)) = Some (or_placeholder (university edu))"
     "cvalue (cells G (33, 2)) = Some (or_placeholder (normalized (graduation_date edu)))"
     "cvalue (cells G (33, 4)) = Some (or_placeholder (major edu))"
     "cvalue (cells G (34, 2)) = Some (or_placeholder (diploma_number edu))"
     "cvalue (cells G (35, 2)) = Some (or_placeholder (diploma_verification_code edu))"
     "cvalue (cells G (37, 2)) = Some (or_placeholder (degree_number edu))"
     "cvalue (cells G (38, 2)) = Some (or_placeholder (degree_verification_code edu))"
    by (simp_all add: cG c8 ds_def ls_def cvalue_filled)
  show ?thesis
  proof (rule that[of G])
    show "insert_doctoral_section g edu = Inr G" by (rule res)
    show "row_offset G = 9" by (rule oG)
    show "\<lparr>min_row = 41, min_col = 5, max_row = 41, max_col = 6\<rparr> \<in> set (merged_cells G)"
      using m1(1) by (simp only: hdr_def)
    show "\<lparr>min_row = 31, min_col = 1, max_row = 31, max_col = 6\<rparr> \<in> set (merged_cells G)"
      using m1(2) by (simp only: title_def)
    show "merged_cells G =
        (let ms1 = filter (\<lambda>mr. \<not> (min_row mr = 41 \<and> min_col mr = 1 \<and> 3 \<le> max_col mr))
                     (map (shift_rect 31 9) (merged_cells g));
             ms2 = (if \<lparr>min_row = 41, min_col = 5, max_row = 41, max_col = 6\<rparr> \<in> set ms1 then ms1
                    else ms1 @ [\<lparr>min_row = 41, min_col = 5, max_row = 41, max_col = 6\<rparr>])
         in if \<lparr>min_row = 31, min_col = 1, max_row = 31, max_col = 6\<rparr> \<in> set ms2 then ms2
            else ms2 @ [\<lparr>min_row = 31, min_col = 1, max_row = 31, max_col = 6\<rparr>])"
      using mG by (simp only: hdr_def title_def)
  qed (fact above below header style vals)+
qed

lemma fill_education_master_doctor:
  assumes "last_of_tier Master (education data) = Some m"
    and "last_of_tier Doctorate (education data) = Some d"
    and "row_offset g = 0"
  obtains g' where
     "fill_education g data = Inr g'"
     "row_offset g' = 9"
     "merged_cells g' =
        (let ms1 = filter (\<lambda>mr. \<not> (min_row mr = 41 \<and> min_col mr = 1 \<and> 3 \<le> max_col mr))
                     (map (shift_rect 31 9) (merged_cells g));
             ms2 = (if \<lparr>min_row = 41, min_col = 5, max_row = 41, max_col = 6\<rparr> \<in> set ms1 then ms1
                    else ms1 @ [\<lparr>min_row = 41, min_col = 5, max_row = 41, max_col = 6\<rparr>])
         in if \<lparr>min_row = 31, min_col = 1, max_row = 31, max_col = 6\<rparr> \<in> set ms2 then ms2
            else ms2 @ [\<lparr>min_row = 31, min_col = 1, max_row = 31, max_col = 6\<rparr>])"
     "cvalue (cells g' (23, 2)) = Some (or_placeholder (normalized (enrollment_date m)))"
     "cvalue (cells g' (23, 4)) = Some (or_placeholder (university m))"
     "cvalue (cells g' (24, 2)) = Some (or_placeholder (normalized (graduation_date m)))"
     "cvalue (cells g' (24, 4)) = Some (or_placeholder (major m))"
     "cvalue (cells g' (25, 2)) = Some (or_placeholder (diploma_number m))"
     "cvalue (cells g' (26, 2)) = Some (or_placeholder (diploma_verification_code m))"
     "cvalue (cells g' (28, 2)) = Some (or_placeholder (degree_number m))"
     "cvalue (cells g' (29, 2)) = Some (or_placeholder (degree_verification_code m))"
     "cvalue (cells g' (31, 1)) = Some boshi_xueli"
     "cvalue (cells g' (32, 2)) = Some (or_placeholder (normalized (enrollment_date d)))"
     "cvalue (cells g' (32, 4)) = Some (or_placeholder (university d))"
     "cvalue (cells g' (33, 2)) = Some (or_placeholder (normalized (graduation_date d)))"
     "cvalue (cells g' (33, 4)) = Some (or_placeholder (major d))"
     "cvalue (cells g' (34, 2)) = Some (or_placeholder (diploma_number d))"
     "cvalue (cells g' (35, 2)) = Some (or_placeholder (diploma_verification_code d))"
     "cvalue (cells g' (37, 2)) = Some (or_placeholder (degree_number d))"
     "cvalue (cells g' (38, 2)) = Some (or_placeholder (degree_verification_code d))"
     "\<And>r c. 31 \<le> r \<and> r < 40 \<and> 1 \<le> c \<and> c \<le> 15 \<and> c \<noteq> 2 \<and> c \<noteq> 4 \<Longrightarrow>
        cstyle (cells g' (r, c)) = cstyle (cells g (r - 9, c))"
     "\<And>r c. 40 \<le> r \<and> \<not> (r = 41 \<and> 1 \<le> c \<and> c \<le> 5) \<Longrightarrow> cells g' (r, c) = cells g (r - 9, c)"
     "\<And>c. 1 \<le> c \<and> c \<le> 5 \<Longrightarrow>
        cells g' (41, c) = (cells g (32, c))\<lparr>cvalue := Some (work_header_labels ! (c - 1))\<rparr>"
     "\<lparr>min_row = 41, min_col = 5, max_row = 41, max_col = 6\<rparr> \<in> set (merged_cells g')"
     "\<lparr>min_row = 31, min_col = 1, max_row = 31, max_col = 6\<rparr> \<in> set (merged_cells g')"
proof -
  define u where "u = (case last_of_tier Bachelor (education data) of Some x \<Rightarrow> x | None \<Rightarrow> empty_edu)"
  define g1 where "g1 = g\<lparr>cells := (cells g)
       ((14, 2) := filled (cells g (14, 2)) (normalized (enrollment_date u)),
        (14, 4) := filled (cells g (14, 4)) (university u),
        (15, 2) := filled (cells g (15, 2)) (normalized (graduation_date u)),
        (15, 4) := filled (cells g (15, 4)) (major u),
        (16, 2) := filled (cells g (16, 2)) (diploma_number u),
        (17, 2) := filled (cells g (17, 2)) (diploma_verification_code u),
        (19, 2) := filled (cells g (19, 2)) (degree_number u),
        (20, 2) := filled (cells g (20, 2)) (degree_verification_code u))\<rparr>"
  define g2 where "g2 = g1\<lparr>cells := (cells g1)
       ((23, 2) := filled (cells g1 (23, 2)) (normalized (enrollment_date m)),
        (23, 4) := filled (cells g1 (23, 4)) (university m),
        (24, 2) := filled (cells g1 (24, 2)) (normalized (graduation_date m)),
        (24, 4) := filled (cells g1 (24, 4)) (major m),
        (25, 2) := filled (cells g1 (25, 2)) (diploma_number m),
        (26, 2) := filled (cells g1 (26, 2)) (diploma_verification_code m),
        (28, 2) := filled (cells g1 (28, 2)) (degree_number m),
        (29, 2) := filled (cells g1 (29, 2)) (degree_verification_code m))\<rparr>"
  have o1: "row_offset g1 = 0" by (simp add: g1_def assms(3))
  have o2: "row_offset g2 = 0" by (simp add: g2_def o1)
  have f1: "fill_undergraduate g u = Inr g1"
    unfolding g1_def by (rule fill_undergraduate_eq[OF assms(3)])
  have f2: "fill_graduate g1 m shuoshi = Inr g2"
    unfolding g2_def by (rule fill_graduate_eq[OF o1])
  have cl: "classify (None, None, None) (education data) =
              (last_of_tier Bachelor (education data), Some m, Some d)"
    by (simp add: classify_last assms(1,2) split: option.splits)
  have step: "fill_education g data = insert_doctoral_section g2 d"
  proof (cases "last_of_tier Bachelor (education data)")
    case None
    then show ?thesis using f1 f2
      by (simp add: fill_education_def cl bind_exc_def u_def)
  next
    case (Some x)
    then show ?thesis using f1 f2
      by (simp add: fill_education_def cl bind_exc_def u_def)
  qed
  have low: "cells g2 (r, c) = cells g (r, c)" if "30 \<le> r" for r c
    using that by (simp add: g2_def g1_def)
  have low': "cells g2 (r, c) = cells g (r, c)" if "c \<noteq> 2" "c \<noteq> 4" for r c
    using that by (simp add: g2_def g1_def)
  have mv: "cvalue (cells g2 (23, 2)) = Some (or_placeholder (normalized (enrollment_date m)))"
     "cvalue (cells g2 (23, 4)) = Some (or_placeholder (university m))"
     "cvalue (cells g2 (24, 2)) = Some (or_placeholder (normalized (graduation_date m)))"
     "cvalue (cells g2 (24, 4)) = Some (or_placeholder (major m))"
     "cvalue (cells g2 (25, 2)) = Some (or_placeholder (diploma_number m))"
     "cvalue (cells g2 (26, 2)) = Some (or_placeholder (diploma_verification_code m))"
     "cvalue (cells g2 (28, 2)) = Some (or_placeholder (degree_number m))"
     "cvalue (cells g2 (29, 2)) = Some (or_placeholder (degree_verification_code m))"
    by (simp_all add: g2_def cvalue_filled)
  show ?thesis
  proof (rule insert_doctoral_section_facts[OF o2, of d])
    fix g'
    assume r: "insert_doctoral_section g2 d = Inr g'" and o: "row_offset g' = 9"
    and m1: "\<lparr>min_row = 41, min_col = 5, max_row = 41, max_col = 6\<rparr> \<in> set (merged_cells g')"
    and m2: "\<lparr>min_row = 31, min_col = 1, max_row = 31, max_col = 6\<rparr> \<in> set (merged_cells g')"
    and mg: "merged_cells g' =
        (let ms1 = filter (\<lambda>mr. \<not> (min_row mr = 41 \<and> min_col mr = 1 \<and> 3 \<le> max_col mr))
                     (map (shift_rect 31 9) (merged_cells g2));
             ms2 = (if \<lparr>min_row = 41, min_col = 5, max_row = 41, max_col = 6\<rparr> \<in> set ms1 then ms1
                    else ms1 @ [\<lparr>min_row = 41, min_col = 5, max_row = 41, max_col = 6\<rparr>])
         in if \<lparr>min_row = 31, min_col = 1, max_row = 31, max_col = 6\<rparr> \<in> set ms2 then ms2
            else ms2 @ [\<lparr>min_row = 31, min_col = 1, max_row = 31, max_col = 6\<rparr>])"
    and above: "\<And>r c. r < 31 \<Longrightarrow> cells g' (r, c) = cells g2 (r, c)"
    and below: "\<And>r c. 40 \<le> r \<and> \<not> (r = 41 \<and> 1 \<le> c \<and> c \<le> 5) \<Longrightarrow> cells g' (r, c) = cells g2 (r - 9, c)"
    and header: "\<And>c. 1 \<le> c \<and> c \<le> 5 \<Longrightarrow>
        cells g' (41, c) = (cells g2 (32, c))\<lparr>cvalue := Some (work_header_labels ! (c - 1))\<rparr>"
    and style: "\<And>r c. 31 \<le> r \<and> r < 40 \<and> 1 \<le> c \<and> c \<le> 15 \<and> c \<noteq> 2 \<and> c \<noteq> 4 \<Longrightarrow>
        cstyle (cells g' (r, c)) = cstyle (cells g2 (r - 9, c))"
    and vals: "cvalue (cells g' (31, 1)) = Some boshi_xueli"
     "cvalue (cells g' (32, 2)) = Some (or_placeholder (normalized (enrollment_date d)))"
     "cvalue (cells g' (32, 4)) = Some (or_placeholder (university d))"
     "cvalue (cells g' (33, 2)) = Some (or_placeholder (normalized (graduation_date d)))"
     "cvalue (cells g' (33, 4)) = Some (or_placeholder (major d))"
     "cvalue (cells g' (34, 2)) = Some (or_placeholder (diploma_number d))"
     "cvalue (cells g' (35, 2)) = Some (or_placeholder (diploma_verification_code d))"
     "cvalue (cells g' (37, 2)) = Some (or_placeholder (degree_number d))"
     "cvalue (cells g' (38, 2)) = Some (or_placeholder (degree_verification_code d))"
  have B: "cells g' (r, c) = cells g (r - 9, c)"
    if "40 \<le> r \<and> \<not> (r = 41 \<and> 1 \<le> c \<and> c \<le> 5)" for r c
  proof -
    from that have "30 \<le> r - 9" by arith
    then show ?thesis using below[OF that] by (simp add: low)
  qed
  have H: "cells g' (41, c) = (cells g (32, c))\<lparr>cvalue := Some (work_header_labels ! (c - 1))\<rparr>"
    if "1 \<le> c \<and> c \<le> 5" for c
    using header[OF that] by (simp add: low)
  have S: "cstyle (cells g' (r, c)) = cstyle (cells g (r - 9, c))"
    if "31 \<le> r \<and> r < 40 \<and> 1 \<le> c \<and> c \<le> 15 \<and> c \<noteq> 2 \<and> c \<noteq> 4" for r c
    using style[OF that] that by (simp add: low')
  have M: "cvalue (cells g' (23, 2)) = Some (or_placeholder (normalized (enrollment_date m)))"
     "cvalue (cells g' (23, 4)) = Some (or_placeholder (university m))"
     "cvalue (cells g' (24, 2)) = Some (or_placeholder (normalized (graduation_date m)))"
     "cvalue (cells g' (24, 4)) = Some (or_placeholder (major m))"
     "cvalue (cells g' (25, 2)) = Some (or_placeholder (diploma_number m))"
     "cvalue (cells g' (26, 2)) = Some (or_placeholder (diploma_verification_code m))"
     "cvalue (cells g' (28, 2)) = Some (or_placeholder (degree_number m))"
     "cvalue (cells g' (29, 2)) = Some (or_placeholder (degree_verification_code m))"
    by (simp_all add: above mv)
  have R: "fill_education g data = Inr g'" by (simp add: step r)
  have mg2: "merged_cells g2 = merged_cells g" by (simp add: g2_def g1_def)
  show ?thesis
    by (rule that[of g']) (fact R o mg[unfolded mg2] M vals S B H m1 m2)+
  qed
qed

section \<open>The doctorate block\<close>

text \<open>
  Claim C1, as the code has it. The education stage starts with the offset 0. When the
  education list has an entry of the Master tier and one of the Doctorate tier (\<open>m\<close>
  and \<open>d\<close> are the last of each), \<^verbatim>\<open>fill_education\<close> returns and
  \<^item> the advanced-education block (rows 23 to 29) holds the Master's data;
  \<^item> nine rows are inserted at row 31: they hold the title of the new block and the
    Doctorate's data, and every row that was at row 31 or below is found nine rows
    lower, so the work-history title row 31 is at row 40;
  \<^item> the offset is 9;
  \<^item> the column-header row of the work history (row 32 before) is at row 41 = 32 + 9:
    this is the row whose five label texts are written again and whose E:F merge is
    made again; the title merge A:F of the new block is at row 31.
\<close>

theorem master_and_doctorate_block:
  assumes "last_of_tier Master (education data) = Some m"
    and "last_of_tier Doctorate (education data) = Some d"
    and "row_offset g = 0"
  shows "\<exists>g'. fill_education g data = Inr g' \<and>
     row_offset g' = 9 \<and>
     cvalue (cells g' (23, 2)) = Some (or_placeholder (normalized (enrollment_date m))) \<and>
     cvalue (cells g' (23, 4)) = Some (or_placeholder (university m)) \<and>
     cvalue (cells g' (24, 2)) = Some (or_placeholder (normalized (graduation_date m))) \<and>
     cvalue (cells g' (24, 4)) = Some (or_placeholder (major m)) \<and>
     cvalue (cells g' (25, 2)) = Some (or_placeholder (diploma_number m)) \<and>
     cvalue (cells g' (26, 2)) = Some (or_placeholder (diploma_verification_code m)) \<and>
     cvalue (cells g' (28, 2)) = Some (or_placeholder (degree_number m)) \<and>
     cvalue (cells g' (29, 2)) = Some (or_placeholder (degree_verification_code m)) \<and>
     cvalue (cells g' (31, 1)) = Some boshi_xueli \<and>
     cvalue (cells g' (32, 2)) = Some (or_placeholder (normalized (enrollment_date d))) \<and>
     cvalue (cells g' (32, 4)) = Some (or_placeholder (university d)) \<and>
     cvalue (cells g' (33, 2)) = Some (or_placeholder (normalized (graduation_date d))) \<and>
     cvalue (cells g' (33, 4)) = Some (or_placeholder (major d)) \<and>
     cvalue (cells g' (34, 2)) = Some (or_placeholder (diploma_number d)) \<and>
     cvalue (cells g' (35, 2)) = Some (or_placeholder (diploma_verification_code d)) \<and>
     cvalue (cells g' (37, 2)) = Some (or_placeholder (degree_number d)) \<and>
     cvalue (cells g' (38, 2)) = Some (or_placeholder (degree_verification_code d)) \<and>
     (\<forall>r c. 40 \<le> r \<and> r \<noteq> 41 \<longrightarrow> cells g' (r, c) = cells g (r - 9, c)) \<and>
     (\<forall>c. 1 \<le> c \<and> c \<le> 5 \<longrightarrow>
        cvalue (cells g' (41, c)) = Some (work_header_labels ! (c - 1))) \<and>
     \<lparr>min_row = 41, min_col = 5, max_row = 41, max_col = 6\<rparr> \<in> set (merged_cells g') \<and>
     \<lparr>min_row = 31, min_col = 1, max_row = 31, max_col = 6\<rparr> \<in> set (merged_cells g')"
proof (rule fill_education_master_doctor[OF assms])
  fix g'
  assume "fill_education g data = Inr g'"
     "row_offset g' = 9"
     "merged_cells g' =
        (let ms1 = filter (\<lambda>mr. \<not> (min_row mr = 41 \<and> min_col mr = 1 \<and> 3 \<le> max_col mr))
                     (map (shift_rect 31 9) (merged_cells g));
             ms2 = (if \<lparr>min_row = 41, min_col = 5, max_row = 41, max_col = 6\<rparr> \<in> set ms1 then ms1
                    else ms1 @ [\<lparr>min_row = 41, min_col = 5, max_row = 41, max_col = 6\<rparr>])
         in if \<lparr>min_row = 31, min_col = 1, max_row = 31, max_col = 6\<rparr> \<in> set ms2 then ms2
            else ms2 @ [\<lparr>min_row = 31, min_col = 1, max_row = 31, max_col = 6\<rparr>])"
     "cvalue (cells g' (23, 2)) = Some (or_placeholder (normalized (enrollment_date m)))"
     "cvalue (cells g' (23, 4)) = Some (or_placeholder (university m))"
     "cvalue (cells g' (24, 2)) = Some (or_placeholder (normalized (graduation_date m)))"
     "cvalue (cells g' (24, 4)) = Some (or_placeholder (major m))"
     "cvalue (cells g' (25, 2)) = Some (or_placeholder (diploma_number m))"
     "cvalue (cells g' (26, 2)) = Some (or_placeholder (diploma_verification_code m))"
     "cvalue (cells g' (28, 2)) = Some (or_placeholder (degree_number m))"
     "cvalue (cells g' (29, 2)) = Some (or_placeholder (degree_verification_code m))"
     "cvalue (cells g' (31, 1)) = Some boshi_xueli"
     "cvalue (cells g' (32, 2)) = Some (or_placeholder (normalized (enrollment_date d)))"
     "cvalue (cells g' (32, 4)) = Some (or_placeholder (university d))"
     "cvalue (cells g' (33, 2)) = Some (or_placeholder (normalized (graduation_date d)))"
     "cvalue (cells g' (33, 4)) = Some (or_placeholder (major d))"
     "cvalue (cells g' (34, 2)) = Some (or_placeholder (diploma_number d))"
     "cvalue (cells g' (35, 2)) = Some (or_placeholder (diploma_verification_code d))"
     "cvalue (cells g' (37, 2)) = Some (or_placeholder (degree_number d))"
     "cvalue (cells g' (38, 2)) = Some (or_placeholder (degree_verification_code d))"
     "\<And>r c. 31 \<le> r \<and> r < 40 \<and> 1 \<le> c \<and> c \<le> 15 \<and> c \<noteq> 2 \<and> c \<noteq> 4 \<Longrightarrow>
        cstyle (cells g' (r, c)) = cstyle (cells g (r - 9, c))"
     "\<And>r c. 40 \<le> r \<and> \<not> (r = 41 \<and> 1 \<le> c \<and> c \<le> 5) \<Longrightarrow> cells g' (r, c) = cells g (r - 9, c)"
     "\<And>c. 1 \<le> c \<and> c \<le> 5 \<Longrightarrow>
        cells g' (41, c) = (cells g (32, c))\<lparr>cvalue := Some (work_header_labels ! (c - 1))\<rparr>"
     "\<lparr>min_row = 41, min_col = 5, max_row = 41, max_col = 6\<rparr> \<in> set (merged_cells g')"
     "\<lparr>min_row = 31, min_col = 1, max_row = 31, max_col = 6\<rparr> \<in> set (merged_cells g')"
  then show ?thesis
    by (intro exI[of _ g'] conjI allI impI) (assumption | simp)+
qed

lemma sample_tiers:
  "last_of_tier Master (education master_and_doctor) = Some sample_master"
  "last_of_tier Doctorate (education master_and_doctor) = Some sample_doctor"
proof -
  have t: "tier_of sample_master = Some Master" "tier_of sample_doctor = Some Doctorate"
    by (simp_all add: tier_of_def sample_master_def sample_doctor_def shuoshi_def benke_def boshi_def)
  show "last_of_tier Master (education master_and_doctor) = Some sample_master"
    "last_of_tier Doctorate (education master_and_doctor) = Some sample_doctor"
    by (simp_all add: last_of_tier_def master_and_doctor_def t)
qed

text \<open>
  Witness for C1: the sample template with one Master entry (university \<^verbatim>\<open>"A"\<close>) and
  one Doctorate entry (university \<^verbatim>\<open>"C"\<close>).
\<close>

theorem master_and_doctorate_block_witness:
  "last_of_tier Master (education master_and_doctor) = Some sample_master \<and>
   last_of_tier Doctorate (education master_and_doctor) = Some sample_doctor \<and>
   row_offset sample_template = 0 \<and>
   (\<exists>g'. fill_education sample_template master_and_doctor = Inr g' \<and>
      row_offset g' = 9 \<and>
      cvalue (cells g' (23, 4)) = Some [65] \<and>
      cvalue (cells g' (32, 4)) = Some [67] \<and>
      cvalue (cells g' (32, 2)) = Some placeholder \<and>
      cells g' (40, 2) = cells sample_template (31, 2) \<and>
      cvalue (cells g' (41, 2)) = Some (work_header_labels ! 1) \<and>
      \<lparr>min_row = 41, min_col = 5, max_row = 41, max_col = 6\<rparr> \<in> set (merged_cells g'))"
proof -
  have o: "row_offset sample_template = 0" by simp
  have v: "or_placeholder (university sample_master) = [65]"
          "or_placeholder (university sample_doctor) = [67]"
          "or_placeholder (normalized (enrollment_date sample_doctor)) = placeholder"
    by (simp_all add: sample_master_def sample_doctor_def empty_edu_def or_placeholder_def)
  from master_and_doctorate_block[OF sample_tiers o] obtain g' where
    A: "fill_education sample_template master_and_doctor = Inr g' \<and>
     row_offset g' = 9 \<and>
     cvalue (cells g' (23, 2)) = Some (or_placeholder (normalized (enrollment_date sample_master))) \<and>
     cvalue (cells g' (23, 4)) = Some (or_placeholder (university sample_master)) \<and>
     cvalue (cells g' (24, 2)) = Some (or_placeholder (normalized (graduation_date sample_master))) \<and>
     cvalue (cells g' (24, 4)) = Some (or_placeholder (major sample_master)) \<and>
     cvalue (cells g' (25, 2)) = Some (or_placeholder (diploma_number sample_master)) \<and>
     cvalue (cells g' (26, 2)) = Some (or_placeholder (diploma_verification_code sample_master)) \<and>
     cvalue (cells g' (28, 2)) = Some (or_placeholder (degree_number sample_master)) \<and>
     cvalue (cells g' (29, 2)) = Some (or_placeholder (degree_verification_code sample_master)) \<and>
     cvalue (cells g' (31, 1)) = Some boshi_xueli \<and>
     cvalue (cells g' (32, 2)) = Some (or_placeholder (normalized (enrollment_date sample_doctor))) \<and>
     cvalue (cells g' (32, 4)) = Some (or_placeholder (university sample_doctor)) \<and>
     cvalue (cells g' (33, 2)) = Some (or_placeholder (normalized (graduation_date sample_doctor))) \<and>
     cvalue (cells g' (33, 4)) = Some (or_placeholder (major sample_doctor)) \<and>
     cvalue (cells g' (34, 2)) = Some (or_placeholder (diploma_number sample_doctor)) \<and>
     cvalue (cells g' (35, 2)) = Some (or_placeholder (diploma_verification_code sample_doctor)) \<and>
     cvalue (cells g' (37, 2)) = Some (or_placeholder (degree_number sample_doctor)) \<and>
     cvalue (cells g' (38, 2)) = Some (or_placeholder (degree_verification_code sample_doctor)) \<and>
     (\<forall>r c. 40 \<le> r \<and> r \<noteq> 41 \<longrightarrow> cells g' (r, c) = cells sample_template (r - 9, c)) \<and>
     (\<forall>c. 1 \<le> c \<and> c \<le> 5 \<longrightarrow>
        cvalue (cells g' (41, c)) = Some (work_header_labels ! (c - 1))) \<and>
     \<lparr>min_row = 41, min_col = 5, max_row = 41, max_col = 6\<rparr> \<in> set (merged_cells g') \<and>
     \<lparr>min_row = 31, min_col = 1, max_row = 31, max_col = 6\<rparr> \<in> set (merged_cells g')" ..
  have "fill_education sample_template master_and_doctor = Inr g' \<and>
      row_offset g' = 9 \<and>
      cvalue (cells g' (23, 4)) = Some [65] \<and>
      cvalue (cells g' (32, 4)) = Some [67] \<and>
      cvalue (cells g' (32, 2)) = Some placeholder \<and>
      cells g' (40, 2) = cells sample_template (31, 2) \<and>
      cvalue (cells g' (41, 2)) = Some (work_header_labels ! 1) \<and>
      \<lparr>min_row = 41, min_col = 5, max_row = 41, max_col = 6\<rparr> \<in> set (merged_cells g')"
    using A by (simp add: v)
  then show ?thesis using sample_tiers o by blast
qed

text \<open>
  Counterexample to C1 as stated: after the education stage on the sample template,
  row 40 = 31 + 9 holds the title text of the work history, not the header label, and
  has no E:F merge; the repaired label texts and the E:F merge are in row 41.
\<close>

theorem header_row_counterexample:
  "\<not> isl (fill_education sample_template master_and_doctor) \<and>
   cvalue (cells (projr (fill_education sample_template master_and_doctor)) (40, 1)) = Some work_title \<and>
   work_title \<noteq> work_header_labels ! 0 \<and>
   \<lparr>min_row = 40, min_col = 5, max_row = 40, max_col = 6\<rparr>
     \<notin> set (merged_cells (projr (fill_education sample_template master_and_doctor))) \<and>
   cvalue (cells (projr (fill_education sample_template master_and_doctor)) (41, 1)) =
     Some (work_header_labels ! 0) \<and>
   \<lparr>min_row = 41, min_col = 5, max_row = 41, max_col = 6\<rparr>
     \<in> set (merged_cells (projr (fill_education sample_template master_and_doctor)))"
proof (rule fill_education_master_doctor[OF sample_tiers, of sample_template])
  show "row_offset sample_template = 0" by simp
next
  fix g'
  assume r: "fill_education sample_template master_and_doctor = Inr g'"
    and m: "merged_cells g' =
        (let ms1 = filter (\<lambda>mr. \<not> (min_row mr = 41 \<and> min_col mr = 1 \<and> 3 \<le> max_col mr))
                     (map (shift_rect 31 9) (merged_cells sample_template));
             ms2 = (if \<lparr>min_row = 41, min_col = 5, max_row = 41, max_col = 6\<rparr> \<in> set ms1 then ms1
                    else ms1 @ [\<lparr>min_row = 41, min_col = 5, max_row = 41, max_col = 6\<rparr>])
         in if \<lparr>min_row = 31, min_col = 1, max_row = 31, max_col = 6\<rparr> \<in> set ms2 then ms2
            else ms2 @ [\<lparr>min_row = 31, min_col = 1, max_row = 31, max_col = 6\<rparr>])"
    and b: "\<And>r c. 40 \<le> r \<and> \<not> (r = 41 \<and> 1 \<le> c \<and> c \<le> 5) \<Longrightarrow> cells g' (r, c) = cells sample_template (r - 9, c)"
    and h: "\<And>c. 1 \<le> c \<and> c \<le> 5 \<Longrightarrow>
        cells g' (41, c) = (cells sample_template (32, c))\<lparr>cvalue := Some (work_header_labels ! (c - 1))\<rparr>"
  have 1: "cvalue (cells g' (40, 1)) = Some work_title"
    using b[of 40 1] by (simp add: sample_template_def)
  have 2: "work_title \<noteq> work_header_labels ! 0"
    by (simp add: work_title_def work_header_labels_def)
  have 3: "merged_cells g' =
     [\<lparr>min_row = 40, min_col = 1, max_row = 40, max_col = 6\<rparr>,
      \<lparr>min_row = 41, min_col = 5, max_row = 41, max_col = 6\<rparr>,
      \<lparr>min_row = 45, min_col = 1, max_row = 45, max_col = 6\<rparr>,
      \<lparr>min_row = 50, min_col = 1, max_row = 50, max_col = 6\<rparr>,
      \<lparr>min_row = 31, min_col = 1, max_row = 31, max_col = 6\<rparr>]"
    unfolding m by (simp add: shift_rect_def)
  have 4: "cvalue (cells g' (41, 1)) = Some (work_header_labels ! 0)"
    using h[of 1] by simp
  show ?thesis using r 1 2 4 by (simp add: 3)
qed

end
